theory Spec2Isabelle
  imports Complex_Main
begin

section \<open>Python list and string primitives used by the relay code\<close>

text \<open>
  Python strings are modelled as \<^typ>\<open>string\<close>, one \<^typ>\<open>char\<close> per code point
  (code points below 256). The helpers below follow the Python built-ins the source calls.
\<close>

definition py_last_n :: "nat \<Rightarrow> 'a list \<Rightarrow> 'a list" where
  \<comment> \<open>\<^verbatim>\<open>xs[-n:]\<close> for \<open>n > 0\<close>: the last \<open>n\<close> elements, the whole list when it is shorter.\<close>
  "py_last_n n xs = drop (length xs - n) xs"

definition newline :: char where
  "newline = CHR 0x0A"

fun join_lines :: "string list \<Rightarrow> string" where
  \<comment> \<open>\<^verbatim>\<open>"\n".join(xs)\<close>\<close>
  "join_lines [] = []"
| "join_lines [x] = x"
| "join_lines (x # y # ys) = x @ [newline] @ join_lines (y # ys)"

definition is_space :: "char \<Rightarrow> bool" where
  \<comment> \<open>the code points below 256 that \<^verbatim>\<open>str.strip()\<close> removes\<close>
  "is_space c = (of_char c \<in> {9, 10, 11, 12, 13, 28, 29, 30, 31, 32, 133, 160 :: nat})"

definition strip :: "string \<Rightarrow> string" where
  \<comment> \<open>\<^verbatim>\<open>s.strip()\<close>\<close>
  "strip s = rev (dropWhile is_space (rev (dropWhile is_space s)))"

definition strip_char :: "char \<Rightarrow> string \<Rightarrow> string" where
  \<comment> \<open>\<^verbatim>\<open>s.strip(c)\<close> for a one-character argument\<close>
  "strip_char c s = rev (dropWhile (\<lambda>x. x = c) (rev (dropWhile (\<lambda>x. x = c) s)))"

definition upper_char :: "char \<Rightarrow> char" where
  "upper_char c =
     (let n = (of_char c :: nat) in if 97 \<le> n \<and> n \<le> 122 then char_of (n - 32) else c)"

definition upper :: "string \<Rightarrow> string" where
  \<comment> \<open>\<^verbatim>\<open>s.upper()\<close> on ASCII letters; no other code point below 256 has an upper case
      among the letters Y, E, S, so the comparison with "YES" is the source's\<close>
  "upper s = map upper_char s"

definition starts_with :: "string \<Rightarrow> string \<Rightarrow> bool" where
  \<comment> \<open>\<^verbatim>\<open>s.startswith(p)\<close>\<close>
  "starts_with s p = (take (length p) s = p)"

definition ends_with :: "string \<Rightarrow> string \<Rightarrow> bool" where
  \<comment> \<open>\<^verbatim>\<open>s.endswith(p)\<close>\<close>
  "ends_with s p = (length p \<le> length s \<and> drop (length s - length p) s = p)"

fun split_on :: "char \<Rightarrow> string \<Rightarrow> string list" where
  \<comment> \<open>\<^verbatim>\<open>s.split(d)\<close>: always at least one field\<close>
  "split_on d [] = [[]]"
| "split_on d (c # cs) =
     (if c = d then [] # split_on d cs
      else (case split_on d cs of [] \<Rightarrow> [[c]] | w # ws \<Rightarrow> (c # w) # ws))"

definition after_first_newline :: "string \<Rightarrow> string" where
  \<comment> \<open>\<^verbatim>\<open>s.split('\n', 1)[1]\<close> for a string that contains a newline\<close>
  "after_first_newline s = drop 1 (dropWhile (\<lambda>c. c \<noteq> newline) s)"

definition before_last_newline :: "string \<Rightarrow> string" where
  \<comment> \<open>\<^verbatim>\<open>s.rsplit('\n', 1)[0]\<close> for a string that contains a newline\<close>
  "before_last_newline s = rev (drop 1 (dropWhile (\<lambda>c. c \<noteq> newline) (rev s)))"

definition code_fence :: string where
  "code_fence = [CHR 0x60, CHR 0x60, CHR 0x60]"

section \<open>Message and notification records (\<^verbatim>\<open>src/friday/integrations/whatsapp_models.py\<close>)\<close>

datatype message_direction = INCOMING | OUTGOING

datatype message_type =
  TEXT | IMAGE | VIDEO | AUDIO | DOCUMENT | STICKER | LOCATION | CONTACT | UNKNOWN

record whatsapp_message =
  msg_id :: string
  chat_name :: string
  sender_name :: string
  content :: string
  timestamp :: real
  direction :: message_direction
  message_type :: message_type
  media_path :: "string option"
  is_read :: bool
  is_from_me :: bool
  from_id :: "string option"

record whatsapp_notification =
  notif_chat_name :: string
  notif_sender_name :: string
  message_preview :: string
  notif_timestamp :: real
  unread_count :: nat

definition trigger_notification :: "whatsapp_message \<Rightarrow> whatsapp_notification" where
  \<comment> \<open>the notification both services build in \<^verbatim>\<open>_trigger_notification\<close> and hand
      to every registered callback\<close>
  "trigger_notification message =
     \<lparr>notif_chat_name = chat_name message,
      notif_sender_name = sender_name message,
      message_preview = take 100 (content message),
      notif_timestamp = timestamp message,
      unread_count = 1\<rparr>"

section \<open>Application state of \<^verbatim>\<open>FridayApp\<close> (src/friday/main.py)\<close>

text \<open>
  The fields are those set in \<^verbatim>\<open>FridayApp.__init__\<close> that the relay engine reads or
  writes. The calls to collaborators (GUI conversation view, text-to-speech, logger, the
  WhatsApp service) are recorded in append-only logs, in call order.
\<close>

record pending_message =
  contact :: string
  sender :: string
  original_message :: string

datatype gui_message =
    AutoReplied string string string
      \<comment> \<open>"Auto-replied to ..." with recipient, message text and summary\<close>
  | NewWhatsAppMessage string string
      \<comment> \<open>"New WhatsApp message from ..." with sender and summary\<close>
  | ErrorProcessingWithAI string string
      \<comment> \<open>"Received message from ... Error processing with AI: ..." with sender and exception\<close>
  | SentTo string string string
      \<comment> \<open>"Sent to ... Your input: ... Sent: ..." (never reached, see below)\<close>
  | FailedToSendTo string
      \<comment> \<open>"Failed to send message to ..." with sender\<close>
  | ErrorRewriting string
      \<comment> \<open>"Error rewriting message: ..." with exception\<close>
  | WhatsAppMessageSent string
      \<comment> \<open>"WhatsApp message sent to ..." with contact\<close>
  | FailedToSendWhatsApp string
      \<comment> \<open>"Failed to send WhatsApp message to ..." with contact\<close>
  | ErrorSending string
      \<comment> \<open>"Error sending message: ..." with exception\<close>

record friday_app =
  whatsapp_enabled :: bool
  last_whatsapp_contact :: "string option"
  waiting_for_whatsapp_reply :: bool
  pending_whatsapp_message :: "pending_message option"
  whatsapp_conversations :: "string \<rightharpoonup> string list"
  user_context :: "(string \<times> real) list"
  is_processing :: bool
  gui_messages :: "gui_message list"
  sent_messages :: "(string \<times> string) list"
  completion_calls :: "string list"
  spoken :: "string list"
  logged_errors :: "string list"
  status_updates :: "string list"

definition max_history_per_contact :: nat where
  "max_history_per_contact = 50"

definition max_user_context :: nat where
  "max_user_context = 30"

definition initial_app :: friday_app where
  \<comment> \<open>the relay fields as \<^verbatim>\<open>FridayApp.__init__\<close> sets them, with empty call logs\<close>
  "initial_app =
     \<lparr>whatsapp_enabled = False, last_whatsapp_contact = None,
      waiting_for_whatsapp_reply = False, pending_whatsapp_message = None,
      whatsapp_conversations = Map.empty, user_context = [], is_processing = False,
      gui_messages = [], sent_messages = [], completion_calls = [], spoken = [],
      logged_errors = [], status_updates = []\<rparr>"

section \<open>Conversation context store\<close>

definition history_line :: "string \<Rightarrow> bool \<Rightarrow> string" where
  \<comment> \<open>\<^verbatim>\<open>f"[{direction}] {message}"\<close>\<close>
  "history_line message is_from_user =
     ''['' @ (if \<not> is_from_user then ''THEM'' else ''YOU'') @ ''] '' @ message"

definition add_to_conversation_history ::
  "friday_app \<Rightarrow> string \<Rightarrow> string \<Rightarrow> bool \<Rightarrow> friday_app" where
  "add_to_conversation_history app contact_name message is_from_user =
     (let existing = (case whatsapp_conversations app contact_name of
                        None \<Rightarrow> [] | Some h \<Rightarrow> h);
          appended = existing @ [history_line message is_from_user];
          kept = (if length appended > max_history_per_contact
                  then py_last_n max_history_per_contact appended else appended)
      in app\<lparr>whatsapp_conversations := (whatsapp_conversations app)(contact_name \<mapsto> kept)\<rparr>)"

definition conversation_window :: "friday_app \<Rightarrow> string \<Rightarrow> string list" where
  \<comment> \<open>the stored window of a contact, empty when the contact has no entry yet\<close>
  "conversation_window app contact_name =
     (case whatsapp_conversations app contact_name of None \<Rightarrow> [] | Some h \<Rightarrow> h)"

fun add_all_to_history :: "friday_app \<Rightarrow> (string \<times> string \<times> bool) list \<Rightarrow> friday_app" where
  \<comment> \<open>a sequence of \<^verbatim>\<open>_add_to_conversation_history\<close> calls, in order\<close>
  "add_all_to_history app [] = app"
| "add_all_to_history app ((c, m, u) # rest) =
     add_all_to_history (add_to_conversation_history app c m u) rest"

definition lines_for :: "string \<Rightarrow> (string \<times> string \<times> bool) list \<Rightarrow> string list" where
  \<comment> \<open>the formatted lines of the calls addressed to one contact, in call order\<close>
  "lines_for c calls = map (\<lambda>(c', m, u). history_line m u) (filter (\<lambda>(c', m, u). c' = c) calls)"

definition add_user_context :: "friday_app \<Rightarrow> string \<Rightarrow> real \<Rightarrow> friday_app" where
  \<comment> \<open>\<^verbatim>\<open>_add_user_context(text)\<close>; \<open>now\<close> is the value \<^verbatim>\<open>time.time()\<close> returns\<close>
  "add_user_context app text now =
     (let appended = user_context app @ [(text, now)];
          kept = (if length appended > max_user_context
                  then py_last_n max_user_context appended else appended)
      in app\<lparr>user_context := kept\<rparr>)"

fun add_all_user_context :: "friday_app \<Rightarrow> (string \<times> real) list \<Rightarrow> friday_app" where
  \<comment> \<open>a sequence of \<^verbatim>\<open>_add_user_context\<close> calls, each with its own clock reading\<close>
  "add_all_user_context app [] = app"
| "add_all_user_context app ((text, now) # rest) =
     add_all_user_context (add_user_context app text now) rest"

fun recent_contexts :: "(nat \<Rightarrow> real) \<Rightarrow> nat \<Rightarrow> (string \<times> real) list \<Rightarrow> (string \<times> real) list" where
  \<comment> \<open>\<^verbatim>\<open>[ctx for ctx in self.user_context if time.time() - ctx['timestamp'] < 300]\<close>:
      the condition reads the clock anew for every entry; \<open>clock i\<close> is the reading taken
      for the entry at position \<open>i\<close>\<close>
  "recent_contexts clock i [] = []"
| "recent_contexts clock i ((text, ts) # rest) =
     (if clock i - ts < 300 then (text, ts) # recent_contexts clock (Suc i) rest
      else recent_contexts clock (Suc i) rest)"

definition no_recent_user_context :: string where
  "no_recent_user_context = ''No recent user context.''"

definition format_user_context :: "(string \<times> real) list \<Rightarrow> string" where
  \<comment> \<open>\<^verbatim>\<open>"WHAT USER TOLD FRIDAY RECENTLY:\n" + "\n".join(f"- {line}" ...)\<close>\<close>
  "format_user_context recent =
     ''WHAT USER TOLD FRIDAY RECENTLY:'' @ [newline] @
       join_lines (map (\<lambda>(text, ts). ''- '' @ text) recent)"

definition get_user_context_text :: "friday_app \<Rightarrow> (nat \<Rightarrow> real) \<Rightarrow> string" where
  "get_user_context_text app clock =
     (if user_context app = [] then no_recent_user_context
      else let recent = recent_contexts clock 0 (user_context app)
           in if recent = [] then no_recent_user_context
              else format_user_context recent)"

definition get_conversation_history_text :: "friday_app \<Rightarrow> string \<Rightarrow> string" where
  "get_conversation_history_text app contact_name =
     (case whatsapp_conversations app contact_name of
        None \<Rightarrow> ''No previous conversation history with this contact.''
      | Some h \<Rightarrow>
          if h = [] then ''No previous conversation history with this contact.''
          else ''RECENT CONVERSATION HISTORY:'' @ [newline] @ join_lines h)"

section \<open>Reply decision engine (\<^verbatim>\<open>FridayApp._process_whatsapp_with_ai\<close>)\<close>

text \<open>
  The collaborators are parameters. \<^verbatim>\<open>OpenAIClient.chat_completion\<close> returns the
  response text or raises (\<open>Inl\<close> carries the exception text);
  \<^verbatim>\<open>WhatsAppWebJSService.send_message\<close> catches every exception and returns a bool;
  \<^verbatim>\<open>TextToSpeech.speak\<close> re-raises its errors (\<open>Some\<close> carries the exception text).
\<close>

record collaborators =
  chat_completion :: "(string \<times> string) list \<Rightarrow> string + string"
  send_message :: "string \<Rightarrow> string \<Rightarrow> bool"
  speak :: "string \<Rightarrow> string option"

definition log_error :: "friday_app \<Rightarrow> string \<Rightarrow> friday_app" where
  \<comment> \<open>\<^verbatim>\<open>logger.error(...)\<close>\<close>
  "log_error app msg = app\<lparr>logged_errors := logged_errors app @ [msg]\<rparr>"

definition gui_add_message :: "friday_app \<Rightarrow> gui_message \<Rightarrow> friday_app" where
  \<comment> \<open>\<^verbatim>\<open>self.window.conversation_view.add_message("assistant", ...)\<close>\<close>
  "gui_add_message app m = app\<lparr>gui_messages := gui_messages app @ [m]\<rparr>"

definition decision_instructions :: string where
  "decision_instructions =
     ''Based on your stored meeting memory, conversation history, and what the user told Jarvis above, decide whether to auto-reply or notify the user. '' @
     ''IMPORTANT: Check your meeting memory for conflicts! If user has a meeting at the requested time, decline politely. '' @
     ''Use the user's recent statements to Jarvis as valuable context (e.g., if user said they're busy, decline invitations). '' @
     ''Remember commitments and important details from previous messages.''"

definition build_user_message ::
  "string \<Rightarrow> string \<Rightarrow> string \<Rightarrow> whatsapp_notification \<Rightarrow> string" where
  \<comment> \<open>the \<^verbatim>\<open>user_message\<close> f-string; \<open>time_context\<close> is the "Current time: ..." line\<close>
  "build_user_message time_context conversation_history user_context_text notification =
     time_context @ [newline, newline] @
     conversation_history @ [newline, newline] @
     user_context_text @ [newline, newline] @
     ''--- NEW MESSAGE ---'' @ [newline] @
     ''From: '' @ notif_sender_name notification @ [newline] @
     ''Chat: '' @ notif_chat_name notification @ [newline] @
     ''Message: '' @ message_preview notification @ [newline, newline] @
     decision_instructions"

definition clean_response :: "string \<Rightarrow> string" where
  \<comment> \<open>strip, then drop an opening and a closing code fence line\<close>
  "clean_response response =
     (let c0 = strip response;
          c1 = (if starts_with c0 code_fence
                then (if newline \<in> set c0 then after_first_newline c0 else c0) else c0);
          c2 = (if ends_with c1 code_fence
                then (if newline \<in> set c1 then before_last_newline c1 else c1) else c1)
      in c2)"

definition parse_lines :: "string \<Rightarrow> string list" where
  \<comment> \<open>\<^verbatim>\<open>[line.strip() for line in cleaned_response.strip().split('\n') if line.strip()]\<close>\<close>
  "parse_lines response =
     map strip (filter (\<lambda>line. strip line \<noteq> [])
                  (split_on newline (strip (clean_response response))))"

definition error_processing_with_ai ::
  "friday_app \<Rightarrow> whatsapp_notification \<Rightarrow> string \<Rightarrow> friday_app" where
  \<comment> \<open>the \<^verbatim>\<open>except Exception\<close> handler of \<^verbatim>\<open>_process_whatsapp_with_ai\<close>\<close>
  "error_processing_with_ai app notification e =
     gui_add_message (log_error app (''Error processing WhatsApp with AI: '' @ e))
       (ErrorProcessingWithAI (notif_sender_name notification) e)"

definition speak_summary ::
  "collaborators \<Rightarrow> friday_app \<Rightarrow> whatsapp_notification \<Rightarrow> string \<Rightarrow> friday_app" where
  \<comment> \<open>\<^verbatim>\<open>self.tts.speak(summary, play_audio=True)\<close> inside the engine's \<^verbatim>\<open>try\<close>\<close>
  "speak_summary env app notification summary =
     (case speak env summary of
        None \<Rightarrow> app\<lparr>spoken := spoken app @ [summary]\<rparr>
      | Some e \<Rightarrow> error_processing_with_ai app notification e)"

definition decide ::
  "collaborators \<Rightarrow> friday_app \<Rightarrow> whatsapp_notification \<Rightarrow> string list \<Rightarrow> friday_app" where
  \<comment> \<open>the part of \<^verbatim>\<open>_process_whatsapp_with_ai\<close> after \<^verbatim>\<open>lines\<close> is parsed\<close>
  "decide env app notification lines =
     (if length lines < 3 then
        log_error app ''Invalid GPT-4o response format. Expected at least 3 lines''
      else
        let speak_aloud = (upper (strip (lines ! 0)) = ''YES'');
            should_send = (upper (strip (lines ! 1)) = ''YES'')
        in if should_send then
             (if length lines < 5 then
                log_error app ''Invalid GPT-4o response for auto-reply. Expected 5 lines''
              else
                let send_to = strip (lines ! 2);
                    message_text = strip (lines ! 3);
                    summary = strip (lines ! 4);
                    success = send_message env send_to message_text;
                    app1 = app\<lparr>sent_messages := sent_messages app @ [(send_to, message_text)]\<rparr>
                in if success then
                     let app2 = add_to_conversation_history app1 send_to
                                  (''You (via Jarvis): '' @ message_text) True;
                         app3 = gui_add_message app2 (AutoReplied send_to message_text summary)
                     in if speak_aloud then speak_summary env app3 notification summary else app3
                   else log_error app1 ''Failed to send auto-reply'')
           else
             let summary = strip (lines ! 2);
                 app1 = app\<lparr>waiting_for_whatsapp_reply := True,
                            pending_whatsapp_message :=
                              Some \<lparr>contact = notif_chat_name notification,
                                    sender = notif_sender_name notification,
                                    original_message = message_preview notification\<rparr>\<rparr>;
                 app2 = gui_add_message app1
                          (NewWhatsAppMessage (notif_sender_name notification) summary);
                 app3 = app2\<lparr>last_whatsapp_contact := Some (notif_chat_name notification)\<rparr>
             in if speak_aloud then speak_summary env app3 notification summary else app3)"

definition process_whatsapp_with_ai ::
  "collaborators \<Rightarrow> string option \<Rightarrow> string \<Rightarrow> (nat \<Rightarrow> real) \<Rightarrow>
   friday_app \<Rightarrow> whatsapp_notification \<Rightarrow> friday_app" where
  \<comment> \<open>\<open>prompt_txt\<close> is the content of prompt.txt (\<open>None\<close> when the file is missing),
      \<open>time_context\<close> the formatted current time, \<open>clock\<close> the readings of
      \<^verbatim>\<open>time.time()\<close>\<close>
  "process_whatsapp_with_ai env prompt_txt time_context clock app notification =
     (case prompt_txt of
        None \<Rightarrow> log_error app ''prompt.txt not found!''
      | Some system_prompt \<Rightarrow>
          let user_message = build_user_message time_context
                (get_conversation_history_text app (notif_chat_name notification))
                (get_user_context_text app clock) notification;
              messages = [(''system'', system_prompt), (''user'', user_message)];
              app1 = app\<lparr>completion_calls := completion_calls app @ [user_message]\<rparr>
          in case chat_completion env messages of
               Inl e \<Rightarrow> error_processing_with_ai app1 notification e
             | Inr response \<Rightarrow> decide env app1 notification (parse_lines response))"

definition on_whatsapp_notification ::
  "collaborators \<Rightarrow> string option \<Rightarrow> string \<Rightarrow> (nat \<Rightarrow> real) \<Rightarrow>
   friday_app \<Rightarrow> whatsapp_notification \<Rightarrow> friday_app" where
  \<comment> \<open>the registered callback: store the line in the history, then run the engine (the
      source starts it on a thread of its own)\<close>
  "on_whatsapp_notification env prompt_txt time_context clock app notification =
     process_whatsapp_with_ai env prompt_txt time_context clock
       (add_to_conversation_history app (notif_chat_name notification)
          (notif_sender_name notification @ '': '' @ message_preview notification) False)
       notification"

section \<open>Pending reply: rewrite and send (\<^verbatim>\<open>FridayApp._rewrite_and_send_whatsapp_reply\<close>)\<close>

definition rewrite_prompt :: "string \<Rightarrow> string \<Rightarrow> string \<Rightarrow> string \<Rightarrow> string" where
  "rewrite_prompt conversation_history sender_name' original user_text =
     ''You are Jarvis, a personal AI assistant helping to rewrite the user's casual response into a proper WhatsApp message.'' @ [newline, newline] @
     conversation_history @ [newline, newline] @
     ''--- LATEST MESSAGE FROM '' @ sender_name' @ '' ---'' @ [newline] @
     original @ [newline, newline] @
     ''--- USER'S CASUAL RESPONSE ---'' @ [newline] @
     [CHR 0x22] @ user_text @ [CHR 0x22] @ [newline, newline] @
     ''TASK: Rewrite the user's casual response into a natural, friendly WhatsApp message. Keep it SHORT and conversational.'' @ [newline] @
     ''Output ONLY the rewritten message, nothing else. No explanations, no quotes, just the message text.''"

definition clear_waiting :: "friday_app \<Rightarrow> friday_app" where
  \<comment> \<open>"Clear waiting flags"\<close>
  "clear_waiting app =
     app\<lparr>waiting_for_whatsapp_reply := False, pending_whatsapp_message := None\<rparr>"

definition rewrite_error :: "friday_app \<Rightarrow> string \<Rightarrow> friday_app" where
  \<comment> \<open>the \<^verbatim>\<open>except Exception\<close> handler: log, show the error, "clear flags even on error"\<close>
  "rewrite_error app e =
     clear_waiting
       (gui_add_message (log_error app (''Error rewriting WhatsApp reply: '' @ e))
          (ErrorRewriting e))"

definition rewrite_and_send_with ::
  "collaborators \<Rightarrow> friday_app \<Rightarrow> pending_message \<Rightarrow> string \<Rightarrow> friday_app" where
  \<comment> \<open>\<^verbatim>\<open>_rewrite_and_send_whatsapp_reply\<close> from the point where the slot has been read
      into the locals \<^verbatim>\<open>contact\<close>, \<^verbatim>\<open>sender\<close> and \<^verbatim>\<open>original_message\<close>. On a successful
      send the source evaluates the name \<^verbatim>\<open>smart_detected\<close>, which is defined nowhere: a
      NameError, handled by the function's own \<^verbatim>\<open>except\<close>.\<close>
  "rewrite_and_send_with env app p user_text =
     (let prompt = rewrite_prompt (get_conversation_history_text app (contact p))
                     (sender p) (original_message p) user_text;
          app1 = app\<lparr>completion_calls := completion_calls app @ [prompt]\<rparr>
      in case chat_completion env [(''user'', prompt)] of
           Inl e \<Rightarrow> rewrite_error app1 e
         | Inr raw \<Rightarrow>
             let rewritten_message = strip_char (CHR 0x27) (strip_char (CHR 0x22) (strip raw));
                 success = send_message env (contact p) rewritten_message;
                 app2 = app1\<lparr>sent_messages :=
                                sent_messages app1 @ [(contact p, rewritten_message)]\<rparr>
             in if success then
                  rewrite_error
                    (add_to_conversation_history app2 (contact p)
                       (''You (via Jarvis): '' @ rewritten_message) True)
                    ''name 'smart_detected' is not defined''
                else
                  clear_waiting
                    (gui_add_message (log_error app2 ''Failed to send rewritten message'')
                       (FailedToSendTo (sender p))))"

definition rewrite_and_send_whatsapp_reply ::
  "collaborators \<Rightarrow> friday_app \<Rightarrow> string \<Rightarrow> friday_app" where
  "rewrite_and_send_whatsapp_reply env app user_text =
     (case pending_whatsapp_message app of
        None \<Rightarrow> log_error app ''No WhatsApp context available for rewriting''
      | Some p \<Rightarrow> rewrite_and_send_with env app p user_text)"




definition send_whatsapp_message ::
  "(string \<Rightarrow> string \<Rightarrow> bool) \<Rightarrow> friday_app \<Rightarrow> string \<Rightarrow> string \<Rightarrow> friday_app" where
  \<comment> \<open>\<^verbatim>\<open>_send_whatsapp_message\<close>, the body of a direct send command\<close>
  "send_whatsapp_message send app contact_name message =
     (let success = send contact_name message;
          app1 = app\<lparr>sent_messages := sent_messages app @ [(contact_name, message)]\<rparr>
      in if success then gui_add_message app1 (WhatsAppMessageSent contact_name)
         else gui_add_message app1 (FailedToSendWhatsApp contact_name))"


section \<open>Change detector and dispatcher of \<^verbatim>\<open>WhatsAppService\<close> (\<^verbatim>\<open>whatsapp_service.py\<close>)\<close>

text \<open>
  The browser is the environment: what the driver shows for a chat-list entry or a message
  bubble is given as a record of the values the code reads from it. The service keeps the
  two dictionaries of the source, the message table of its database (keyed by id, written
  with INSERT OR REPLACE), its queue, and a log of the effects in the order they happen.
\<close>

fun is_substring :: "string \<Rightarrow> string \<Rightarrow> bool" where
  \<comment> \<open>\<^verbatim>\<open>needle in hay\<close>\<close>
  "is_substring needle [] = (needle = [])"
| "is_substring needle (c # cs) =
     (take (length needle) (c # cs) = needle \<or> is_substring needle cs)"

datatype service_event =
    PreviewStored string string
      \<comment> \<open>\<^verbatim>\<open>self.last_message_previews[chat_name] = message_preview\<close>\<close>
  | ChatOpened string
      \<comment> \<open>\<^verbatim>\<open>chat.click()\<close> returned\<close>
  | MessagesRead string nat
      \<comment> \<open>\<^verbatim>\<open>_read_current_chat_messages(chat_name)\<close> returned that many messages\<close>
  | MessageSaved whatsapp_message
      \<comment> \<open>\<^verbatim>\<open>self.db.save_message(message)\<close> returned\<close>
  | NotificationTriggered whatsapp_notification
  | MessageDelivered string string
      \<comment> \<open>Enter pressed in the message box of a contact\<close>

record whatsapp_service =
  last_seen_messages :: "string \<rightharpoonup> string"
  last_message_previews :: "string \<rightharpoonup> string"
  db :: "string \<rightharpoonup> whatsapp_message"
  message_queue :: "whatsapp_message list"
  events :: "service_event list"

record message_elem =
  elem_class :: "string option"
    \<comment> \<open>\<^verbatim>\<open>get_attribute('class')\<close>, \<open>None\<close> when the element has none\<close>
  elem_text :: "string option"
    \<comment> \<open>text of \<^verbatim>\<open>span.selectable-text\<close>, \<open>None\<close> when the lookup raises\<close>
  elem_sender :: "string option"
    \<comment> \<open>text of the sender span of a group message, \<open>None\<close> when the lookup raises\<close>
  elem_uuid :: string
    \<comment> \<open>the value \<^verbatim>\<open>uuid.uuid4()\<close> returns while the element is processed\<close>
  elem_now :: real
    \<comment> \<open>the value \<^verbatim>\<open>datetime.now()\<close> returns while the element is processed\<close>

record chat_elem =
  has_unread :: bool
    \<comment> \<open>an unread badge was found, or the title's font weight is at least 600\<close>
  chat_title :: "string option"
    \<comment> \<open>the title attribute, \<open>None\<close> when absent or when both lookups raise\<close>
  chat_preview :: string
    \<comment> \<open>\<^verbatim>\<open>message_preview\<close> as left by the two lookups, empty when none succeeds\<close>
  click_raises :: bool
    \<comment> \<open>\<^verbatim>\<open>chat.click()\<close> raises (stale element)\<close>
  panel :: "message_elem list option"
    \<comment> \<open>the message elements of the conversation once it is open, \<open>None\<close> when the
        container lookup raises\<close>

definition read_message ::
  "whatsapp_service \<Rightarrow> string \<Rightarrow> message_elem \<Rightarrow> whatsapp_service \<times> whatsapp_message list" where
  \<comment> \<open>the body of the loop of \<^verbatim>\<open>_read_current_chat_messages\<close> for one element\<close>
  "read_message svc name elem =
     (case elem_class elem of
        None \<Rightarrow> (svc, [])
      | Some cls \<Rightarrow>
          let from_me = is_substring ''message-out'' cls;
              message_text = (case elem_text elem of
                                Some t \<Rightarrow> t | None \<Rightarrow> ''[Media or unsupported message]'');
              sender = (if \<not> from_me
                        then (case elem_sender elem of Some s \<Rightarrow> s | None \<Rightarrow> name)
                        else ''Me'')
          in if last_seen_messages svc name = Some message_text then (svc, [])
             else
               let svc' = svc\<lparr>last_seen_messages := (last_seen_messages svc)(name \<mapsto> message_text)\<rparr>
               in if \<not> from_me then
                    (svc', [\<lparr>msg_id = elem_uuid elem, chat_name = name, sender_name = sender,
                             content = message_text, timestamp = elem_now elem,
                             direction = INCOMING, message_type = TEXT, media_path = None,
                             is_read = False, is_from_me = False, from_id = None\<rparr>])
                  else (svc', []))"

fun read_messages ::
  "whatsapp_service \<Rightarrow> string \<Rightarrow> message_elem list \<Rightarrow> whatsapp_service \<times> whatsapp_message list" where
  "read_messages svc name [] = (svc, [])"
| "read_messages svc name (elem # elems) =
     (let (svc1, ms) = read_message svc name elem;
          (svc2, ms') = read_messages svc1 name elems
      in (svc2, ms @ ms'))"

definition read_current_chat_messages ::
  "whatsapp_service \<Rightarrow> string \<Rightarrow> message_elem list option \<Rightarrow>
   whatsapp_service \<times> whatsapp_message list" where
  \<comment> \<open>\<^verbatim>\<open>limit\<close> has its default 10\<close>
  "read_current_chat_messages svc name shown =
     (case shown of
        None \<Rightarrow> (svc, [])
      | Some message_elements \<Rightarrow> read_messages svc name (py_last_n 10 message_elements))"

definition store_preview :: "whatsapp_service \<Rightarrow> string \<Rightarrow> string \<Rightarrow> whatsapp_service" where
  "store_preview svc name message_preview' =
     svc\<lparr>last_message_previews := (last_message_previews svc)(name \<mapsto> message_preview'),
         events := events svc @ [PreviewStored name message_preview']\<rparr>"

definition check_chat ::
  "whatsapp_service \<Rightarrow> chat_elem \<Rightarrow> whatsapp_service \<times> whatsapp_message list" where
  \<comment> \<open>the body of the loop over the chat list in \<^verbatim>\<open>_check_for_new_messages\<close>\<close>
  "check_chat svc chat =
     (if \<not> has_unread chat then (svc, [])
      else case chat_title chat of
        None \<Rightarrow> (svc, [])
      | Some name \<Rightarrow>
          if name = [] \<or> strip name = [] then (svc, [])
          else if chat_preview chat = [] then (svc, [])
          else case last_message_previews svc name of
            Some last_preview \<Rightarrow>
              if last_preview = chat_preview chat then (svc, [])
              else
                let svc1 = store_preview svc name (chat_preview chat)
                in if click_raises chat then (svc1, [])
                   else
                     let (svc2, chat_messages) =
                           read_current_chat_messages
                             (svc1\<lparr>events := events svc1 @ [ChatOpened name]\<rparr>) name (panel chat)
                     in (svc2\<lparr>events := events svc2 @
                                 [MessagesRead name (length chat_messages)]\<rparr>,
                         chat_messages)
          | None \<Rightarrow> (store_preview svc name (chat_preview chat), []))"

fun check_chats ::
  "whatsapp_service \<Rightarrow> chat_elem list \<Rightarrow> whatsapp_service \<times> whatsapp_message list" where
  "check_chats svc [] = (svc, [])"
| "check_chats svc (chat # chats) =
     (let (svc1, ms) = check_chat svc chat;
          (svc2, ms') = check_chats svc1 chats
      in (svc2, ms @ ms'))"

definition check_for_new_messages ::
  "whatsapp_service \<Rightarrow> chat_elem list option \<Rightarrow> whatsapp_service \<times> whatsapp_message list" where
  \<comment> \<open>\<open>all_chats\<close> is the list the four selector methods end with, \<open>None\<close> when the
      driver raises; only the first 20 entries are checked\<close>
  "check_for_new_messages svc all_chats =
     (case all_chats of
        None \<Rightarrow> (svc, [])
      | Some chats \<Rightarrow> check_chats svc (take 20 chats))"

fun surface_messages ::
  "(whatsapp_message \<Rightarrow> bool) \<Rightarrow> whatsapp_service \<Rightarrow> whatsapp_message list \<Rightarrow>
   whatsapp_service \<times> whatsapp_notification list" where
  \<comment> \<open>the loop over \<^verbatim>\<open>new_messages\<close> in \<^verbatim>\<open>_monitor_messages\<close>: save, queue, notify.
      \<open>save_raises m\<close> says that the database raises on \<open>m\<close>; the exception leaves the
      loop. The result lists the notifications handed to the callbacks.\<close>
  "surface_messages save_raises svc [] = (svc, [])"
| "surface_messages save_raises svc (m # ms) =
     (if save_raises m then (svc, [])
      else
        let svc1 = svc\<lparr>db := (db svc)(msg_id m \<mapsto> m),
                       message_queue := message_queue svc @ [m],
                       events := events svc @
                         [MessageSaved m, NotificationTriggered (trigger_notification m)]\<rparr>;
            (svc2, ns) = surface_messages save_raises svc1 ms
        in (svc2, trigger_notification m # ns))"

definition monitor_cycle ::
  "(whatsapp_message \<Rightarrow> bool) \<Rightarrow> whatsapp_service \<Rightarrow> chat_elem list option \<Rightarrow>
   whatsapp_service \<times> whatsapp_notification list" where
  \<comment> \<open>one pass of the loop of \<^verbatim>\<open>_monitor_messages\<close> while connected\<close>
  "monitor_cycle save_raises svc all_chats =
     (let (svc1, new_messages) = check_for_new_messages svc all_chats
      in surface_messages save_raises svc1 new_messages)"

datatype send_attempt =
    AttemptRaises
      \<comment> \<open>an exception before Enter is pressed (search box, message box, typing)\<close>
  | ContactNotFound
      \<comment> \<open>TimeoutException while waiting for the contact in the search results\<close>
  | SentSaveRaises
      \<comment> \<open>Enter pressed, then \<^verbatim>\<open>self.db.save_message\<close> raises\<close>
  | SentAndSaved

definition sent_message_record :: "string \<Rightarrow> string \<Rightarrow> string \<Rightarrow> real \<Rightarrow> whatsapp_message" where
  "sent_message_record uuid contact_name message now =
     \<lparr>msg_id = uuid, chat_name = contact_name, sender_name = ''Me'', content = message,
      timestamp = now, direction = OUTGOING, message_type = TEXT, media_path = None,
      is_read = True, is_from_me = True, from_id = None\<rparr>"

fun send_attempts ::
  "whatsapp_service \<Rightarrow> string \<Rightarrow> string \<Rightarrow> (send_attempt \<times> string \<times> real) list \<Rightarrow>
   whatsapp_service \<times> bool" where
  \<comment> \<open>the \<^verbatim>\<open>for attempt in range(retries)\<close> loop; each attempt comes with its outcome
      in the browser and the uuid and time it would draw\<close>
  "send_attempts svc contact_name message [] = (svc, False)"
| "send_attempts svc contact_name message ((outcome, uuid, now) # rest) =
     (case outcome of
        AttemptRaises \<Rightarrow> send_attempts svc contact_name message rest
      | ContactNotFound \<Rightarrow> (svc, False)
      | SentSaveRaises \<Rightarrow>
          send_attempts (svc\<lparr>events := events svc @ [MessageDelivered contact_name message]\<rparr>)
            contact_name message rest
      | SentAndSaved \<Rightarrow>
          (svc\<lparr>db := (db svc)(uuid \<mapsto> sent_message_record uuid contact_name message now),
               events := events svc @
                 [MessageDelivered contact_name message,
                  MessageSaved (sent_message_record uuid contact_name message now)]\<rparr>,
           True))"

definition service_send_message ::
  "(nat \<Rightarrow> send_attempt \<times> string \<times> real) \<Rightarrow> whatsapp_service \<Rightarrow> string \<Rightarrow> string \<Rightarrow> nat \<Rightarrow>
   whatsapp_service \<times> bool" where
  \<comment> \<open>\<^verbatim>\<open>WhatsAppService.send_message(contact_name, message, retries)\<close>\<close>
  "service_send_message browser svc contact_name message retries =
     send_attempts svc contact_name message (map browser [0..<retries])"

section \<open>\<^verbatim>\<open>WhatsAppWebJSService\<close> (\<^verbatim>\<open>whatsapp_webjs_service.py\<close>)\<close>

text \<open>
  The Node.js bridge is the environment: the JSON it answers with is given as data. The
  service holds no message table.
\<close>

record bridge_message =
  bm_id :: string
  bm_chat_name :: string
  bm_sender_name :: string
  bm_body :: string
  bm_timestamp :: "real option"
    \<comment> \<open>\<open>None\<close> when \<^verbatim>\<open>datetime.fromtimestamp\<close> raises\<close>
  bm_is_from_me :: bool
  bm_from :: string

definition bridge_to_message :: "real \<Rightarrow> bridge_message \<Rightarrow> whatsapp_message" where
  "bridge_to_message now msg_data =
     \<lparr>msg_id = bm_id msg_data, chat_name = bm_chat_name msg_data,
      sender_name = bm_sender_name msg_data, content = bm_body msg_data,
      timestamp = (case bm_timestamp msg_data of Some t \<Rightarrow> t | None \<Rightarrow> now),
      direction = INCOMING, message_type = TEXT, media_path = None,
      is_read = True, is_from_me = bm_is_from_me msg_data,
      from_id = Some (bm_from msg_data)\<rparr>"

definition webjs_poll ::
  "real \<Rightarrow> (nat \<times> bridge_message list) option \<Rightarrow> whatsapp_notification list" where
  \<comment> \<open>one pass of the loop of \<^verbatim>\<open>WhatsAppWebJSService._monitor_messages\<close>: the answer
      to GET /messages/new is a status code and a message list, \<open>None\<close> when the request
      raises; the result lists the notifications handed to the callbacks\<close>
  "webjs_poll now response =
     (case response of
        None \<Rightarrow> []
      | Some (status_code, messages) \<Rightarrow>
          if status_code = 200
          then map (\<lambda>msg_data. trigger_notification (bridge_to_message now msg_data)) messages
          else [])"

record bridge =
  contacts_search :: "string \<Rightarrow> (nat \<times> (string \<times> string) list) option"
    \<comment> \<open>POST /contacts/search: status code and the (id, name) results, \<open>None\<close> when the
        request raises\<close>
  messages_send :: "string \<Rightarrow> string \<Rightarrow> nat option"
    \<comment> \<open>POST /messages/send: status code, \<open>None\<close> when the request raises\<close>

definition webjs_send_message :: "bridge \<Rightarrow> string \<Rightarrow> string \<Rightarrow> bool" where
  \<comment> \<open>\<^verbatim>\<open>WhatsAppWebJSService.send_message\<close>\<close>
  "webjs_send_message b contact_name message =
     (case contacts_search b contact_name of
        None \<Rightarrow> False
      | Some (status_code, results) \<Rightarrow>
          if status_code \<noteq> 200 then False
          else case results of
            [] \<Rightarrow> False
          | (chat_id, name) # _ \<Rightarrow>
              (case messages_send b chat_id message of
                 None \<Rightarrow> False
               | Some send_status \<Rightarrow> send_status = 200))"

fun notify_all ::
  "collaborators \<Rightarrow> string option \<Rightarrow> string \<Rightarrow> (nat \<Rightarrow> real) \<Rightarrow>
   friday_app \<Rightarrow> whatsapp_notification list \<Rightarrow> friday_app" where
  \<comment> \<open>the registered callback \<^verbatim>\<open>_on_whatsapp_notification\<close> run on each notification in
      turn\<close>
  "notify_all env prompt_txt time_context clock app [] = app"
| "notify_all env prompt_txt time_context clock app (n # ns) =
     notify_all env prompt_txt time_context clock
       (on_whatsapp_notification env prompt_txt time_context clock app n) ns"

definition webjs_monitor_cycle ::
  "collaborators \<Rightarrow> string option \<Rightarrow> string \<Rightarrow> (nat \<Rightarrow> real) \<Rightarrow> real \<Rightarrow>
   friday_app \<Rightarrow> (nat \<times> bridge_message list) option \<Rightarrow> whatsapp_message list \<times> friday_app" where
  \<comment> \<open>one pass of the loop of \<^verbatim>\<open>WhatsAppWebJSService._monitor_messages\<close> with the
      callback of \<^verbatim>\<open>FridayApp\<close> registered: the message objects the loop built, as they
      are once the callbacks have run, and the application state\<close>
  "webjs_monitor_cycle env prompt_txt time_context clock now app response =
     (case response of
        None \<Rightarrow> ([], app)
      | Some (status_code, messages) \<Rightarrow>
          if status_code = 200
          then (map (bridge_to_message now) messages,
                notify_all env prompt_txt time_context clock app
                  (map (\<lambda>msg_data. trigger_notification (bridge_to_message now msg_data))
                     messages))
          else ([], app))"

section \<open>Notions used to state the properties\<close>

definition observed :: "chat_elem \<Rightarrow> (string \<times> string) option" where
  \<comment> \<open>the chat name and preview with which \<^const>\<open>check_chat\<close> reaches the comparison with the
      stored preview; \<open>None\<close> for an entry the loop skips before it\<close>
  "observed chat =
     (if \<not> has_unread chat then None
      else case chat_title chat of
        None \<Rightarrow> None
      | Some name \<Rightarrow>
          if name = [] \<or> strip name = [] \<or> chat_preview chat = [] then None
          else Some (name, chat_preview chat))"

definition observations :: "chat_elem list \<Rightarrow> (string \<times> string) list" where
  "observations chats = List.map_filter observed chats"






section \<open>Concrete scenarios\<close>

definition empty_service :: whatsapp_service where
  \<comment> \<open>the dictionaries as \<^verbatim>\<open>WhatsAppService.__init__\<close> sets them, an empty message table\<close>
  "empty_service =
     \<lparr>last_seen_messages = Map.empty, last_message_previews = Map.empty, db = Map.empty,
      message_queue = [], events = []\<rparr>"

definition incoming_elem :: "string \<Rightarrow> string \<Rightarrow> message_elem" where
  "incoming_elem who said =
     \<lparr>elem_class = Some ''message-in focusable-list-item'', elem_text = Some said,
      elem_sender = Some who, elem_uuid = ''0b7e'', elem_now = 1000\<rparr>"

definition unread_chat :: "string \<Rightarrow> string \<Rightarrow> message_elem list \<Rightarrow> chat_elem" where
  "unread_chat who shown elems =
     \<lparr>has_unread = True, chat_title = Some who, chat_preview = shown,
      click_raises = False, panel = Some elems\<rparr>"

definition chen_notification :: whatsapp_notification where
  "chen_notification =
     \<lparr>notif_chat_name = ''Chen'', notif_sender_name = ''Chen'',
      message_preview = ''Can we meet at 3pm?'', notif_timestamp = 1000, unread_count = 1\<rparr>"

definition scripted :: "string \<Rightarrow> bool \<Rightarrow> collaborators" where
  \<comment> \<open>collaborators that answer every completion with one text and every send with one
      result; speech never fails\<close>
  "scripted response delivered =
     \<lparr>chat_completion = (\<lambda>messages. Inr response),
      send_message = (\<lambda>contact_name message. delivered),
      speak = (\<lambda>said. None)\<rparr>"


definition unparseable_response :: string where
  "unparseable_response =
     ''MAYBE'' @ [newline] @ ''PERHAPS'' @ [newline] @ ''Chen wants to meet at 3pm''"

definition fenced_two_line_response :: string where
  "fenced_two_line_response =
     code_fence @ [newline] @ ''NO'' @ [newline] @ [newline] @ ''  no '' @ [newline] @ code_fence"

definition auto_reply_response :: string where
  "auto_reply_response =
     ''no'' @ [newline] @ ''Yes'' @ [newline] @ ''Chen'' @ [newline] @ ''Sure, 3pm works'' @
     [newline] @ ''Chen asked to meet at 3pm; accepted''"

definition spoken_hold_response :: string where
  "spoken_hold_response = ''yes'' @ [newline] @ ''No'' @ [newline] @ ''Chen wants to meet at 3pm''"

definition hold_response :: string where
  "hold_response = ''NO'' @ [newline] @ ''NO'' @ [newline] @ ''Chen wants to meet at 3pm''"


definition long_message :: whatsapp_message where
  "long_message =
     \<lparr>msg_id = ''3EB0'', chat_name = ''Chen'', sender_name = ''Chen'',
      content = replicate 120 (CHR ''a''), timestamp = 1000, direction = INCOMING,
      message_type = TEXT, media_path = None, is_read = True, is_from_me = False,
      from_id = Some ''123@c.us''\<rparr>"

definition chen_bridge_message :: bridge_message where
  "chen_bridge_message =
     \<lparr>bm_id = ''false_123@c.us_3EB0'', bm_chat_name = ''Chen'', bm_sender_name = ''Chen'',
      bm_body = ''Can we meet at 3pm?'', bm_timestamp = Some 1000, bm_is_from_me = False,
      bm_from = ''123@c.us''\<rparr>"

definition own_bridge_message :: bridge_message where
  "own_bridge_message =
     \<lparr>bm_id = ''true_123@c.us_3EB0'', bm_chat_name = ''Chen'', bm_sender_name = ''Me'',
      bm_body = ''On my way'', bm_timestamp = Some 1000, bm_is_from_me = True,
      bm_from = ''123@c.us''\<rparr>"

definition answering_bridge :: bridge where
  "answering_bridge =
     \<lparr>contacts_search = (\<lambda>query. Some (200, [(''123@c.us'', ''Chen'')])),
      messages_send = (\<lambda>chat_id message. Some 200)\<rparr>"

section \<open>Context window: bounded FIFO\<close>

lemma py_last_n_short: "length xs \<le> n \<Longrightarrow> py_last_n n xs = xs"
  by (simp add: py_last_n_def)

lemma py_last_n_append:
  "py_last_n n (py_last_n n xs @ ys) = py_last_n n (xs @ ys)"
proof (cases "length xs \<le> n")
  case True
  then show ?thesis by (simp add: py_last_n_short)
next
  case False
  then have gt: "n < length xs" by simp
  have b: "length xs - (length xs - n) = n" using gt by simp
  have c: "length xs + length ys - n - length xs = length ys - n" using gt by simp
  have d: "length ys + (length xs - n) = length xs + length ys - n" using gt by simp
  show ?thesis
    by (simp add: py_last_n_def b c d)
qed

lemma window_after_add:
  "conversation_window (add_to_conversation_history app c m u) c' =
     (if c' = c then py_last_n max_history_per_contact (conversation_window app c @ [history_line m u])
      else conversation_window app c')"
  by (auto simp: add_to_conversation_history_def conversation_window_def Let_def
        py_last_n_short split: option.splits)

lemma window_after_all:
  "conversation_window (add_all_to_history app calls) c =
     (if lines_for c calls = [] then conversation_window app c
      else py_last_n max_history_per_contact (conversation_window app c @ lines_for c calls))"
proof (induction calls arbitrary: app)
  case Nil
  show ?case by (simp add: lines_for_def)
next
  case (Cons call calls)
  obtain c' m u where call: "call = (c', m, u)" by (cases call) auto
  have pos: "0 < max_history_per_contact" by (simp add: max_history_per_contact_def)
  show ?case
  proof (cases "c' = c")
    case False
    with Cons.IH [of "add_to_conversation_history app c' m u"] call
    show ?thesis by (simp add: window_after_add lines_for_def)
  next
    case True
    have step: "conversation_window (add_to_conversation_history app c m u) c =
        py_last_n max_history_per_contact (conversation_window app c @ [history_line m u])"
      by (simp add: window_after_add)
    have ls: "lines_for c (call # calls) = history_line m u # lines_for c calls"
      using call True by (simp add: lines_for_def)
    show ?thesis
    proof (cases "lines_for c calls = []")
      case True
      with Cons.IH [of "add_to_conversation_history app c m u"] call \<open>c' = c\<close> step ls
      show ?thesis by simp
    next
      case False
      have "py_last_n max_history_per_contact
              (py_last_n max_history_per_contact (conversation_window app c @ [history_line m u])
                 @ lines_for c calls) =
            py_last_n max_history_per_contact
              ((conversation_window app c @ [history_line m u]) @ lines_for c calls)"
        by (rule py_last_n_append)
      with Cons.IH [of "add_to_conversation_history app c m u"] call \<open>c' = c\<close> step ls False
      show ?thesis by simp
    qed
  qed
qed

text \<open>
  C8. Starting from an application with no conversation history, after any sequence of
  \<^verbatim>\<open>_add_to_conversation_history\<close> calls (to any contacts) the window of every contact
  holds at most 50 lines, namely the last 50 of the lines appended for that contact, in
  append order; when 55 lines were appended for the contact, the window is the appended
  sequence without its 5 oldest lines.
\<close>

theorem context_window_bounded_fifo:
  "length (conversation_window
             (add_all_to_history (app\<lparr>whatsapp_conversations := Map.empty\<rparr>) calls) c) \<le> 50
   \<and> conversation_window (add_all_to_history (app\<lparr>whatsapp_conversations := Map.empty\<rparr>) calls) c
       = py_last_n 50 (lines_for c calls)
   \<and> (length (lines_for c calls) = 50 + 5 \<longrightarrow>
        conversation_window (add_all_to_history (app\<lparr>whatsapp_conversations := Map.empty\<rparr>) calls) c
          = drop 5 (lines_for c calls))"
proof -
  let ?app0 = "app\<lparr>whatsapp_conversations := Map.empty\<rparr>"
  have empty: "conversation_window ?app0 c = []"
    by (simp add: conversation_window_def)
  have eq: "conversation_window (add_all_to_history ?app0 calls) c = py_last_n 50 (lines_for c calls)"
    using window_after_all [of ?app0 calls c] empty
    by (auto simp: max_history_per_contact_def py_last_n_def)
  show ?thesis unfolding eq by (auto simp: py_last_n_def)
qed

theorem context_window_bounded_fifo_witness:
  "length (lines_for ''Chen'' (map (\<lambda>i. (''Chen'', replicate i CHR ''x'', False)) [0..<55])) = 50 + 5
   \<and> conversation_window
        (add_all_to_history (initial_app\<lparr>whatsapp_conversations := Map.empty\<rparr>)
           (map (\<lambda>i. (''Chen'', replicate i CHR ''x'', False)) [0..<55])) ''Chen''
       = drop 5 (lines_for ''Chen'' (map (\<lambda>i. (''Chen'', replicate i CHR ''x'', False)) [0..<55]))"
proof -
  have len: "length (lines_for ''Chen''
      (map (\<lambda>i. (''Chen'', replicate i CHR ''x'', False)) [0..<55])) = 50 + 5"
    by (simp add: lines_for_def filter_map o_def)
  with context_window_bounded_fifo [of initial_app
      "map (\<lambda>i. (''Chen'', replicate i CHR ''x'', False)) [0..<55]" "''Chen''"]
  show ?thesis by blast
qed

section \<open>User utterance pool\<close>

lemma user_context_after_add:
  "user_context (add_user_context app text now) =
     py_last_n max_user_context (user_context app @ [(text, now)])"
  by (simp add: add_user_context_def Let_def py_last_n_short)

lemma user_context_after_all:
  "user_context (add_all_user_context app entries) =
     (if entries = [] then user_context app
      else py_last_n max_user_context (user_context app @ entries))"
proof (induction entries arbitrary: app)
  case Nil
  show ?case by simp
next
  case (Cons e entries)
  obtain said now where e: "e = (said, now)" by (cases e) auto
  show ?case
  proof (cases "entries = []")
    case True
    then show ?thesis using e by (simp add: user_context_after_add)
  next
    case False
    have "py_last_n max_user_context
            (py_last_n max_user_context (user_context app @ [(said, now)]) @ entries) =
          py_last_n max_user_context ((user_context app @ [(said, now)]) @ entries)"
      by (rule py_last_n_append)
    with Cons.IH [of "add_user_context app said now"] e False
    show ?thesis by (simp add: user_context_after_add)
  qed
qed

lemma recent_contexts_enumerate:
  "recent_contexts clock k pool =
     map snd (filter (\<lambda>(i, (text, ts)). clock i - 300 < ts) (enumerate k pool))"
  by (induction pool arbitrary: k) auto

lemma recent_contexts_constant:
  "recent_contexts (\<lambda>_. now) k pool = filter (\<lambda>(text, ts). now - 300 < ts) pool"
  by (induction pool arbitrary: k) auto

lemma join_lines_concat:
  "xs \<noteq> [] \<Longrightarrow> [newline] @ join_lines xs = concat (map (\<lambda>x. CHR 0x0A # x) xs)"
  by (induction xs rule: join_lines.induct) (simp_all add: newline_def)

lemma format_user_context_concat:
  "recent \<noteq> [] \<Longrightarrow>
     format_user_context recent =
       ''WHAT USER TOLD FRIDAY RECENTLY:'' @
         concat (map (\<lambda>(said, ts). CHR 0x0A # ''- '' @ said) recent)"
proof -
  assume "recent \<noteq> []"
  then have "map (\<lambda>(said, ts). ''- '' @ said) recent \<noteq> []" by simp
  then have "[newline] @ join_lines (map (\<lambda>(said, ts). ''- '' @ said) recent) =
      concat (map (\<lambda>x. CHR 0x0A # x) (map (\<lambda>(said, ts). ''- '' @ said) recent))"
    by (rule join_lines_concat)
  also have "\<dots> = concat (map (\<lambda>(said, ts). CHR 0x0A # ''- '' @ said) recent)"
    by (induction recent) auto
  finally show ?thesis
    unfolding format_user_context_def by simp
qed

text \<open>
  C9. Starting from an empty pool, after any sequence of \<^verbatim>\<open>_add_user_context\<close> calls
  the pool holds the newest 30 \<open>(text, timestamp)\<close> entries (all of them while fewer than
  30 were added), whatever their timestamps. \<^verbatim>\<open>_get_user_context_text\<close> returns the
  sentinel "No recent user context." when no stored entry has a timestamp strictly greater
  than the clock reading minus 300 seconds, and otherwise the header line followed by one
  "- text" line for each such entry, in stored order. The first equation is for any clock
  (each entry is tested against the reading taken for it), the second for a read at one
  instant \<open>now\<close>.
\<close>

theorem user_utterance_pool:
  "user_context (add_all_user_context (app\<lparr>user_context := []\<rparr>) entries) =
     drop (length entries - 30) entries
   \<and> length (user_context (add_all_user_context (app\<lparr>user_context := []\<rparr>) entries)) =
       min 30 (length entries)
   \<and> get_user_context_text app clock =
        (let recent = map snd (filter (\<lambda>(i, (said, ts)). clock i - 300 < ts)
                                 (enumerate 0 (user_context app)))
         in if recent = [] then ''No recent user context.''
            else ''WHAT USER TOLD FRIDAY RECENTLY:'' @
                   concat (map (\<lambda>(said, ts). CHR 0x0A # ''- '' @ said) recent))
   \<and> get_user_context_text app (\<lambda>_. now) =
        (let recent = filter (\<lambda>(said, ts). now - 300 < ts) (user_context app)
         in if recent = [] then ''No recent user context.''
            else ''WHAT USER TOLD FRIDAY RECENTLY:'' @
                   concat (map (\<lambda>(said, ts). CHR 0x0A # ''- '' @ said) recent))"
proof -
  have pool: "user_context (add_all_user_context (app\<lparr>user_context := []\<rparr>) entries)
      = drop (length entries - 30) entries"
    using user_context_after_all [of "app\<lparr>user_context := []\<rparr>" entries]
    by (auto simp: max_user_context_def py_last_n_def)
  have len: "length (drop (length entries - 30) entries) = min 30 (length entries)"
    by auto
  have text_of: "get_user_context_text app c =
        (let recent = recent_contexts c 0 (user_context app)
         in if recent = [] then ''No recent user context.''
            else ''WHAT USER TOLD FRIDAY RECENTLY:'' @
                   concat (map (\<lambda>(said, ts). CHR 0x0A # ''- '' @ said) recent))" for c
  proof (cases "recent_contexts c 0 (user_context app) = []")
    case True
    then show ?thesis
      by (simp add: get_user_context_text_def Let_def no_recent_user_context_def)
  next
    case False
    then have "user_context app \<noteq> []" by auto
    with False show ?thesis
      by (simp add: get_user_context_text_def Let_def format_user_context_concat)
  qed
  have len': "length (user_context (add_all_user_context (app\<lparr>user_context := []\<rparr>) entries)) =
       min 30 (length entries)"
    unfolding pool by (rule len)
  have any_clock: "get_user_context_text app clock =
        (let recent = map snd (filter (\<lambda>(i, (said, ts)). clock i - 300 < ts)
                                 (enumerate 0 (user_context app)))
         in if recent = [] then ''No recent user context.''
            else ''WHAT USER TOLD FRIDAY RECENTLY:'' @
                   concat (map (\<lambda>(said, ts). CHR 0x0A # ''- '' @ said) recent))"
    using text_of [of clock] unfolding recent_contexts_enumerate .
  have one_instant: "get_user_context_text app (\<lambda>_. now) =
        (let recent = filter (\<lambda>(said, ts). now - 300 < ts) (user_context app)
         in if recent = [] then ''No recent user context.''
            else ''WHAT USER TOLD FRIDAY RECENTLY:'' @
                   concat (map (\<lambda>(said, ts). CHR 0x0A # ''- '' @ said) recent))"
    using text_of [of "\<lambda>_. now"] unfolding recent_contexts_constant .
  show ?thesis
    using pool len' any_clock one_instant by (intro conjI)
qed

theorem user_utterance_pool_witness:
  "user_context
     (add_all_user_context (initial_app\<lparr>user_context := []\<rparr>)
        (map (\<lambda>i. (replicate i (CHR ''x''), real i)) [0..<33])) =
     map (\<lambda>i. (replicate i (CHR ''x''), real i)) [3..<33]
   \<and> get_user_context_text
        (initial_app\<lparr>user_context :=
           [(''lunch at noon'', 0), (''busy until 5'', 900), (''call mom'', 1000)]\<rparr>)
        (\<lambda>_. 1100) =
      ''WHAT USER TOLD FRIDAY RECENTLY:'' @ [CHR 0x0A] @ ''- busy until 5'' @ [CHR 0x0A] @
      ''- call mom''
   \<and> get_user_context_text
        (initial_app\<lparr>user_context := [(''lunch at noon'', 0), (''busy until 5'', 900)]\<rparr>)
        (\<lambda>_. 1200) =
      ''No recent user context.''"
proof -
  have a: "user_context
     (add_all_user_context (initial_app\<lparr>user_context := []\<rparr>)
        (map (\<lambda>i. (replicate i (CHR ''x''), real i)) [0..<33])) =
     map (\<lambda>i. (replicate i (CHR ''x''), real i)) [3..<33]"
    using user_utterance_pool [of initial_app "map (\<lambda>i. (replicate i (CHR ''x''), real i)) [0..<33]"]
    by (simp add: drop_map)
  have b: "get_user_context_text
        (initial_app\<lparr>user_context :=
           [(''lunch at noon'', 0), (''busy until 5'', 900), (''call mom'', 1000)]\<rparr>)
        (\<lambda>_. 1100) =
      ''WHAT USER TOLD FRIDAY RECENTLY:'' @ [CHR 0x0A] @ ''- busy until 5'' @ [CHR 0x0A] @
      ''- call mom''"
    using user_utterance_pool [where app =
        "initial_app\<lparr>user_context :=
           [(''lunch at noon'', 0), (''busy until 5'', 900), (''call mom'', 1000)]\<rparr>"
        and now = 1100]
    by simp
  have c: "get_user_context_text
        (initial_app\<lparr>user_context := [(''lunch at noon'', 0), (''busy until 5'', 900)]\<rparr>)
        (\<lambda>_. 1200) =
      ''No recent user context.''"
    using user_utterance_pool [where app =
        "initial_app\<lparr>user_context := [(''lunch at noon'', 0), (''busy until 5'', 900)]\<rparr>"
        and now = 1200]
    by simp
  show ?thesis using a b c by (intro conjI)
qed

section \<open>Change detector: first sight and unchanged previews\<close>

lemma read_message_previews:
  "last_message_previews (fst (read_message svc name elem)) = last_message_previews svc"
  by (auto simp: read_message_def Let_def split: option.splits)

lemma read_message_chat_name:
  "m \<in> set (snd (read_message svc name elem)) \<Longrightarrow>
     chat_name m = name \<and> \<not> is_from_me m \<and> direction m = INCOMING"
  by (auto simp: read_message_def Let_def split: option.splits if_splits)

lemma read_messages_previews:
  "last_message_previews (fst (read_messages svc name elems)) = last_message_previews svc"
proof (induction elems arbitrary: svc)
  case Nil
  show ?case by simp
next
  case (Cons e es)
  show ?case
    using Cons.IH [of "fst (read_message svc name e)"] read_message_previews [of svc name e]
    by (simp add: case_prod_beta Let_def)
qed

lemma read_messages_chat_name:
  "m \<in> set (snd (read_messages svc name elems)) \<Longrightarrow>
     chat_name m = name \<and> \<not> is_from_me m \<and> direction m = INCOMING"
proof (induction elems arbitrary: svc)
  case Nil
  then show ?case by simp
next
  case (Cons e es)
  from Cons.prems have "m \<in> set (snd (read_message svc name e)) \<or>
      m \<in> set (snd (read_messages (fst (read_message svc name e)) name es))"
    by (simp add: case_prod_beta Let_def)
  then show ?case using read_message_chat_name Cons.IH by blast
qed

lemma check_chat_not_observed:
  "observed chat = None \<Longrightarrow> check_chat svc chat = (svc, [])"
  by (auto simp: observed_def check_chat_def split: option.splits if_splits)

lemma check_chat_first_sight:
  "observed chat = Some (n, p) \<Longrightarrow> last_message_previews svc n = None \<Longrightarrow>
     check_chat svc chat = (store_preview svc n p, [])"
  by (auto simp: observed_def check_chat_def split: option.splits if_splits)

lemma check_chat_unchanged:
  "observed chat = Some (n, p) \<Longrightarrow> last_message_previews svc n = Some p \<Longrightarrow>
     check_chat svc chat = (svc, [])"
  by (auto simp: observed_def check_chat_def split: option.splits if_splits)

lemma check_chat_previews:
  "last_message_previews (fst (check_chat svc chat)) =
     (case observed chat of
        None \<Rightarrow> last_message_previews svc
      | Some (n, p) \<Rightarrow> (last_message_previews svc)(n \<mapsto> p))"
  by (auto simp: observed_def check_chat_def store_preview_def Let_def case_prod_beta
        read_current_chat_messages_def read_messages_previews
        split: option.splits if_splits)

lemma check_chat_messages:
  "m \<in> set (snd (check_chat svc chat)) \<Longrightarrow>
     (\<exists>p. observed chat = Some (chat_name m, p)) \<and> \<not> is_from_me m \<and> direction m = INCOMING"
  by (auto simp: observed_def check_chat_def store_preview_def Let_def case_prod_beta
        read_current_chat_messages_def
        split: option.splits if_splits dest: read_messages_chat_name)


lemma observations_Cons:
  "observations (c # cs) =
     (case observed c of None \<Rightarrow> observations cs | Some x \<Rightarrow> x # observations cs)"
  by (simp add: observations_def split: option.splits)

lemma observations_Nil: "observations [] = []"
  by (simp add: observations_def)

lemma check_chats_frame:
  "n \<notin> fst ` set (observations chats) \<Longrightarrow>
     last_message_previews (fst (check_chats svc chats)) n = last_message_previews svc n"
proof (induction chats arbitrary: svc)
  case Nil
  show ?case by simp
next
  case (Cons c cs)
  have rest: "n \<notin> fst ` set (observations cs)"
    using Cons.prems by (auto simp: observations_Cons split: option.splits)
  have head: "last_message_previews (fst (check_chat svc c)) n = last_message_previews svc n"
    using Cons.prems by (auto simp: check_chat_previews observations_Cons split: option.splits)
  show ?case
    using Cons.IH [OF rest, of "fst (check_chat svc c)"] head
    by (simp add: case_prod_beta Let_def)
qed

lemma check_chats_records:
  assumes "\<And>p'. (n, p') \<in> set (observations chats) \<Longrightarrow> p' = p"
    and "(n, p) \<in> set (observations chats)"
  shows "last_message_previews (fst (check_chats svc chats)) n = Some p"
  using assms
proof (induction chats arbitrary: svc)
  case Nil
  then show ?case by (simp add: observations_Nil)
next
  case (Cons c cs)
  let ?svc1 = "fst (check_chat svc c)"
  have sub: "set (observations cs) \<subseteq> set (observations (c # cs))"
    by (auto simp: observations_Cons split: option.splits)
  have one: "\<And>p'. (n, p') \<in> set (observations cs) \<Longrightarrow> p' = p"
    using Cons.prems(1) sub by blast
  have unfold: "fst (check_chats svc (c # cs)) = fst (check_chats ?svc1 cs)"
    by (simp add: case_prod_beta Let_def)
  show ?case
  proof (cases "(n, p) \<in> set (observations cs)")
    case True
    with one have "last_message_previews (fst (check_chats ?svc1 cs)) n = Some p"
      by (rule Cons.IH)
    then show ?thesis using unfold by simp
  next
    case False
    with Cons.prems(2) have head: "observed c = Some (n, p)"
      by (auto simp: observations_Cons split: option.splits)
    have "n \<notin> fst ` set (observations cs)"
    proof
      assume "n \<in> fst ` set (observations cs)"
      then obtain p' where p': "(n, p') \<in> set (observations cs)" by auto
      then have "p' = p" by (rule one)
      with p' False show False by simp
    qed
    then have "last_message_previews (fst (check_chats ?svc1 cs)) n = last_message_previews ?svc1 n"
      by (rule check_chats_frame)
    also have "\<dots> = Some p" using head by (simp add: check_chat_previews)
    finally show ?thesis using unfold by simp
  qed
qed

lemma check_chats_quiet:
  "(\<And>n p. (n, p) \<in> set (observations chats) \<Longrightarrow> last_message_previews svc n = Some p) \<Longrightarrow>
     check_chats svc chats = (svc, [])"
proof (induction chats)
  case Nil
  show ?case by simp
next
  case (Cons c cs)
  have head: "check_chat svc c = (svc, [])"
  proof (cases "observed c")
    case None
    then show ?thesis by (rule check_chat_not_observed)
  next
    case (Some np)
    obtain n p where np: "np = (n, p)" by (cases np) auto
    have "(n, p) \<in> set (observations (c # cs))"
      using Some np by (simp add: observations_Cons)
    then have "last_message_previews svc n = Some p" by (rule Cons.prems)
    with Some np show ?thesis by (simp add: check_chat_unchanged)
  qed
  have "check_chats svc cs = (svc, [])"
  proof (rule Cons.IH)
    fix n p assume "(n, p) \<in> set (observations cs)"
    then have "(n, p) \<in> set (observations (c # cs))"
      by (auto simp: observations_Cons split: option.splits)
    then show "last_message_previews svc n = Some p" by (rule Cons.prems)
  qed
  with head show ?case by simp
qed

lemma check_chats_conversation:
  assumes "\<And>p'. (n, p') \<in> set (observations chats) \<Longrightarrow> p' = p"
    and "last_message_previews svc n = None \<or> last_message_previews svc n = Some p"
  shows "\<forall>m \<in> set (snd (check_chats svc chats)). chat_name m \<noteq> n"
  using assms
proof (induction chats arbitrary: svc)
  case Nil
  show ?case by simp
next
  case (Cons c cs)
  let ?svc1 = "fst (check_chat svc c)"
  have rest_obs: "\<And>p'. (n, p') \<in> set (observations cs) \<Longrightarrow> p' = p"
    using Cons.prems(1) by (auto simp: observations_Cons split: option.splits)
  have head_msgs: "\<forall>m \<in> set (snd (check_chat svc c)). chat_name m \<noteq> n"
  proof (cases "\<exists>p'. observed c = Some (n, p')")
    case True
    then obtain p' where o: "observed c = Some (n, p')" by blast
    then have "p' = p" using Cons.prems(1) by (simp add: observations_Cons)
    with o Cons.prems(2) show ?thesis
      by (auto simp: check_chat_first_sight check_chat_unchanged)
  next
    case False
    then show ?thesis using check_chat_messages by blast
  qed
  have head_state: "last_message_previews ?svc1 n = None \<or> last_message_previews ?svc1 n = Some p"
  proof (cases "\<exists>p'. observed c = Some (n, p')")
    case True
    then obtain p' where o: "observed c = Some (n, p')" by blast
    then have "p' = p" using Cons.prems(1) by (simp add: observations_Cons)
    with o show ?thesis by (simp add: check_chat_previews)
  next
    case False
    then have "last_message_previews ?svc1 n = last_message_previews svc n"
      by (auto simp: check_chat_previews split: option.splits)
    with Cons.prems(2) show ?thesis by simp
  qed
  have "\<forall>m \<in> set (snd (check_chats ?svc1 cs)). chat_name m \<noteq> n"
    using rest_obs head_state by (rule Cons.IH)
  with head_msgs show ?case by (auto simp: case_prod_beta Let_def)
qed


text \<open>
  C7 (as amended). For one chat-list entry that reaches the comparison with conversation
  \<open>n\<close> and preview \<open>p\<close>: when \<open>n\<close> has no stored preview at that moment, the step only
  stores \<open>p\<close> and returns no message; when the stored preview is \<open>p\<close>, the step returns
  no message and leaves the service as it was. For a whole poll in whose first 20 entries
  conversation \<open>n\<close> is observed with the one preview \<open>p\<close>: when \<open>n\<close> has no stored
  preview or the stored preview is \<open>p\<close>, the poll returns no message of \<open>n\<close> and leaves
  \<open>p\<close> stored for \<open>n\<close>. Hence, for two consecutive polls that both observe \<open>n\<close> with
  the one preview \<open>p\<close>, the second poll returns no message of \<open>n\<close>, whatever the service
  state before the first. Previews are stored by chat title: two entries of one poll that
  share a title and show different previews count as a change of one conversation, and
  are surfaced by the first poll and again by every later one, as shown after the witness.
\<close>

theorem change_detector_baseline_and_unchanged:
  "(observed chat = Some (n, p) \<and> last_message_previews svc n = None \<longrightarrow>
      check_chat svc chat = (store_preview svc n p, []))
   \<and> (observed chat = Some (n, p) \<and> last_message_previews svc n = Some p \<longrightarrow>
      check_chat svc chat = (svc, []))
   \<and> ((n, p) \<in> set (observations (take 20 chats))
      \<and> (\<forall>p'. (n, p') \<in> set (observations (take 20 chats)) \<longrightarrow> p' = p)
      \<and> (last_message_previews svc n = None \<or> last_message_previews svc n = Some p) \<longrightarrow>
      (\<forall>m \<in> set (snd (check_for_new_messages svc (Some chats))). chat_name m \<noteq> n)
      \<and> last_message_previews (fst (check_for_new_messages svc (Some chats))) n = Some p)
   \<and> ((n, p) \<in> set (observations (take 20 chats))
      \<and> (\<forall>p'. (n, p') \<in> set (observations (take 20 chats)) \<longrightarrow> p' = p)
      \<and> (n, p) \<in> set (observations (take 20 chats'))
      \<and> (\<forall>p'. (n, p') \<in> set (observations (take 20 chats')) \<longrightarrow> p' = p) \<longrightarrow>
      (\<forall>m \<in> set (snd (check_for_new_messages
                          (fst (check_for_new_messages svc (Some chats))) (Some chats'))).
         chat_name m \<noteq> n))"
proof (intro conjI impI)
  assume "observed chat = Some (n, p) \<and> last_message_previews svc n = None"
  then show "check_chat svc chat = (store_preview svc n p, [])"
    by (simp add: check_chat_first_sight)
next
  assume "observed chat = Some (n, p) \<and> last_message_previews svc n = Some p"
  then show "check_chat svc chat = (svc, [])"
    by (simp add: check_chat_unchanged)
next
  assume a: "(n, p) \<in> set (observations (take 20 chats))
      \<and> (\<forall>p'. (n, p') \<in> set (observations (take 20 chats)) \<longrightarrow> p' = p)
      \<and> (last_message_previews svc n = None \<or> last_message_previews svc n = Some p)"
  then have one: "\<And>p'. (n, p') \<in> set (observations (take 20 chats)) \<Longrightarrow> p' = p" by blast
  from a have st: "last_message_previews svc n = None \<or> last_message_previews svc n = Some p"
    by blast
  from one st
  show "\<forall>m \<in> set (snd (check_for_new_messages svc (Some chats))). chat_name m \<noteq> n"
    unfolding check_for_new_messages_def option.case by (rule check_chats_conversation)
next
  assume a: "(n, p) \<in> set (observations (take 20 chats))
      \<and> (\<forall>p'. (n, p') \<in> set (observations (take 20 chats)) \<longrightarrow> p' = p)
      \<and> (last_message_previews svc n = None \<or> last_message_previews svc n = Some p)"
  then have one: "\<And>p'. (n, p') \<in> set (observations (take 20 chats)) \<Longrightarrow> p' = p" by blast
  from a have "(n, p) \<in> set (observations (take 20 chats))" by blast
  with one
  show "last_message_previews (fst (check_for_new_messages svc (Some chats))) n = Some p"
    unfolding check_for_new_messages_def option.case by (rule check_chats_records)
next
  assume a: "(n, p) \<in> set (observations (take 20 chats))
      \<and> (\<forall>p'. (n, p') \<in> set (observations (take 20 chats)) \<longrightarrow> p' = p)
      \<and> (n, p) \<in> set (observations (take 20 chats'))
      \<and> (\<forall>p'. (n, p') \<in> set (observations (take 20 chats')) \<longrightarrow> p' = p)"
  then have one: "\<And>p'. (n, p') \<in> set (observations (take 20 chats)) \<Longrightarrow> p' = p" by blast
  from a have two: "\<And>p'. (n, p') \<in> set (observations (take 20 chats')) \<Longrightarrow> p' = p" by blast
  from a have "(n, p) \<in> set (observations (take 20 chats))" by blast
  with one have "last_message_previews (fst (check_chats svc (take 20 chats))) n = Some p"
    by (rule check_chats_records)
  then have st: "last_message_previews (fst (check_chats svc (take 20 chats))) n = None
      \<or> last_message_previews (fst (check_chats svc (take 20 chats))) n = Some p" by simp
  from two st
  show "\<forall>m \<in> set (snd (check_for_new_messages
                          (fst (check_for_new_messages svc (Some chats))) (Some chats'))).
         chat_name m \<noteq> n"
    unfolding check_for_new_messages_def option.case by (rule check_chats_conversation)
qed


lemma observed_unread_chat:
  "who \<noteq> [] \<Longrightarrow> strip who \<noteq> [] \<Longrightarrow> shown \<noteq> [] \<Longrightarrow>
     observed (unread_chat who shown elems) = Some (who, shown)"
  by (simp add: observed_def unread_chat_def)

lemma strip_Chen: "strip ''Chen'' = ''Chen''"
  by (simp add: strip_def is_space_def)

lemma strip_Bob: "strip ''Bob'' = ''Bob''"
  by (simp add: strip_def is_space_def)

theorem change_detector_baseline_and_unchanged_witness:
  "check_chat empty_service (unread_chat ''Chen'' ''Hey there'' []) =
      (store_preview empty_service ''Chen'' ''Hey there'', [])
   \<and> check_chat (store_preview empty_service ''Chen'' ''Hey there'')
        (unread_chat ''Chen'' ''Hey there'' []) =
      (store_preview empty_service ''Chen'' ''Hey there'', [])
   \<and> list_all (\<lambda>m. chat_name m \<noteq> ''Chen'')
        (snd (check_for_new_messages
               (empty_service\<lparr>last_message_previews := [''Bob'' \<mapsto> ''Hi'']\<rparr>)
               (Some [unread_chat ''Chen'' ''Hey there'' [incoming_elem ''Chen'' ''Hey there''],
                      unread_chat ''Bob'' ''See you'' [incoming_elem ''Bob'' ''See you'']])))
   \<and> map content
        (snd (check_for_new_messages
               (empty_service\<lparr>last_message_previews := [''Bob'' \<mapsto> ''Hi'']\<rparr>)
               (Some [unread_chat ''Chen'' ''Hey there'' [incoming_elem ''Chen'' ''Hey there''],
                      unread_chat ''Bob'' ''See you'' [incoming_elem ''Bob'' ''See you'']])))
      = [''See you'']
   \<and> list_all (\<lambda>m. chat_name m \<noteq> ''Chen'')
        (snd (check_for_new_messages
               (fst (check_for_new_messages
                      (empty_service\<lparr>last_message_previews := [''Bob'' \<mapsto> ''Hi'']\<rparr>)
                      (Some [unread_chat ''Chen'' ''Hey there'' [incoming_elem ''Chen'' ''Hey there''],
                             unread_chat ''Bob'' ''See you'' [incoming_elem ''Bob'' ''See you'']])))
               (Some [unread_chat ''Chen'' ''Hey there'' [incoming_elem ''Chen'' ''Hey there''],
                      unread_chat ''Bob'' ''See you'' [incoming_elem ''Bob'' ''See you'']])))"
proof -
  let ?chen = "unread_chat ''Chen'' ''Hey there'' []"
  let ?svc = "empty_service\<lparr>last_message_previews := [''Bob'' \<mapsto> ''Hi'']\<rparr>"
  let ?listing = "[unread_chat ''Chen'' ''Hey there'' [incoming_elem ''Chen'' ''Hey there''],
                   unread_chat ''Bob'' ''See you'' [incoming_elem ''Bob'' ''See you'']]"
  have o: "observed ?chen = Some (''Chen'', ''Hey there'')"
    by (simp add: observed_unread_chat strip_Chen)
  have none: "last_message_previews empty_service ''Chen'' = None"
    by (simp add: empty_service_def)
  have some: "last_message_previews (store_preview empty_service ''Chen'' ''Hey there'') ''Chen''
      = Some ''Hey there''"
    by (simp add: store_preview_def)
  have obs: "observations (take 20 ?listing) = [(''Chen'', ''Hey there''), (''Bob'', ''See you'')]"
    by (simp add: observations_def observed_unread_chat strip_Chen strip_Bob)
  have mem: "(''Chen'', ''Hey there'') \<in> set (observations (take 20 ?listing))"
    unfolding obs by simp
  have one: "\<forall>p'. (''Chen'', p') \<in> set (observations (take 20 ?listing)) \<longrightarrow> p' = ''Hey there''"
    unfolding obs by simp
  have st: "last_message_previews ?svc ''Chen'' = None \<or>
      last_message_previews ?svc ''Chen'' = Some ''Hey there''"
    by (simp add: empty_service_def)
  have first: "check_chat empty_service ?chen = (store_preview empty_service ''Chen'' ''Hey there'', [])"
    using change_detector_baseline_and_unchanged
      [of ?chen "''Chen''" "''Hey there''" empty_service] o none by blast
  have second: "check_chat (store_preview empty_service ''Chen'' ''Hey there'') ?chen =
      (store_preview empty_service ''Chen'' ''Hey there'', [])"
    using change_detector_baseline_and_unchanged
      [of ?chen "''Chen''" "''Hey there''" "store_preview empty_service ''Chen'' ''Hey there''"]
      o some by blast
  have poll: "\<forall>m \<in> set (snd (check_for_new_messages ?svc (Some ?listing))). chat_name m \<noteq> ''Chen''"
    using change_detector_baseline_and_unchanged
      [of _ "''Chen''" "''Hey there''" ?svc ?listing] mem one st by blast
  have twice: "\<forall>m \<in> set (snd (check_for_new_messages
        (fst (check_for_new_messages ?svc (Some ?listing))) (Some ?listing))). chat_name m \<noteq> ''Chen''"
    using change_detector_baseline_and_unchanged
      [of _ "''Chen''" "''Hey there''" ?svc ?listing ?listing] mem one by blast
  have bob: "map content (snd (check_for_new_messages ?svc (Some ?listing))) = [''See you'']"
    by (simp add: check_for_new_messages_def check_chat_def unread_chat_def empty_service_def
          store_preview_def read_current_chat_messages_def py_last_n_def read_message_def
          incoming_elem_def strip_Chen strip_Bob Let_def)
  show ?thesis
    using first second poll twice bob by (simp add: list_all_iff)
qed

lemma strip_Sam: "strip ''Sam'' = ''Sam''"
  by code_simp

lemma same_title_first_poll:
  "check_for_new_messages empty_service
     (Some [unread_chat ''Sam'' ''hi there'' [incoming_elem ''Sam'' ''hi there''],
            unread_chat ''Sam'' ''yo yo'' [incoming_elem ''Sam'' ''yo yo'']]) =
   (\<lparr>last_seen_messages = [''Sam'' \<mapsto> ''yo yo''],
     last_message_previews = [''Sam'' \<mapsto> ''yo yo''], db = Map.empty, message_queue = [],
     events = [PreviewStored ''Sam'' ''hi there'', PreviewStored ''Sam'' ''yo yo'',
               ChatOpened ''Sam'', MessagesRead ''Sam'' 1]\<rparr>,
    [\<lparr>msg_id = ''0b7e'', chat_name = ''Sam'', sender_name = ''Sam'', content = ''yo yo'',
      timestamp = 1000, direction = INCOMING, message_type = TEXT, media_path = None,
      is_read = False, is_from_me = False, from_id = None\<rparr>])"
  by (simp add: check_for_new_messages_def check_chat_def unread_chat_def empty_service_def
        store_preview_def read_current_chat_messages_def py_last_n_def read_message_def
        incoming_elem_def strip_Sam Let_def)

theorem same_title_entries_resurface_counterexample:
  "last_message_previews empty_service ''Sam'' = None
   \<and> map content
        (snd (check_for_new_messages empty_service
           (Some [unread_chat ''Sam'' ''hi there'' [incoming_elem ''Sam'' ''hi there''],
                  unread_chat ''Sam'' ''yo yo'' [incoming_elem ''Sam'' ''yo yo'']]))) =
       [''yo yo'']
   \<and> map content
        (snd (check_for_new_messages
           (fst (check_for_new_messages empty_service
              (Some [unread_chat ''Sam'' ''hi there'' [incoming_elem ''Sam'' ''hi there''],
                     unread_chat ''Sam'' ''yo yo'' [incoming_elem ''Sam'' ''yo yo'']])))
           (Some [unread_chat ''Sam'' ''hi there'' [incoming_elem ''Sam'' ''hi there''],
                  unread_chat ''Sam'' ''yo yo'' [incoming_elem ''Sam'' ''yo yo'']]))) =
       [''hi there'', ''yo yo'']"
proof -
  have second: "map content
        (snd (check_for_new_messages
           \<lparr>last_seen_messages = [''Sam'' \<mapsto> ''yo yo''],
             last_message_previews = [''Sam'' \<mapsto> ''yo yo''], db = Map.empty,
             message_queue = [],
             events = [PreviewStored ''Sam'' ''hi there'', PreviewStored ''Sam'' ''yo yo'',
               ChatOpened ''Sam'', MessagesRead ''Sam'' 1]\<rparr>
           (Some [unread_chat ''Sam'' ''hi there'' [incoming_elem ''Sam'' ''hi there''],
                  unread_chat ''Sam'' ''yo yo'' [incoming_elem ''Sam'' ''yo yo'']]))) =
       [''hi there'', ''yo yo'']"
    by (simp add: check_for_new_messages_def check_chat_def unread_chat_def
        store_preview_def read_current_chat_messages_def py_last_n_def read_message_def
        incoming_elem_def strip_Sam Let_def)
  show ?thesis
    unfolding same_title_first_poll using second by (simp add: empty_service_def)
qed

section \<open>Change detector: order of preview write, read and save\<close>



















section \<open>Decision engine: short responses and lines that are not YES\<close>

lemma add_history_fields [simp]:
  "waiting_for_whatsapp_reply (add_to_conversation_history app c m u) = waiting_for_whatsapp_reply app"
  "pending_whatsapp_message (add_to_conversation_history app c m u) = pending_whatsapp_message app"
  "sent_messages (add_to_conversation_history app c m u) = sent_messages app"
  "gui_messages (add_to_conversation_history app c m u) = gui_messages app"
  "completion_calls (add_to_conversation_history app c m u) = completion_calls app"
  "logged_errors (add_to_conversation_history app c m u) = logged_errors app"
  "user_context (add_to_conversation_history app c m u) = user_context app"
  "whatsapp_enabled (add_to_conversation_history app c m u) = whatsapp_enabled app"
  by (simp_all add: add_to_conversation_history_def Let_def)

lemma log_error_fields [simp]:
  "waiting_for_whatsapp_reply (log_error app e) = waiting_for_whatsapp_reply app"
  "pending_whatsapp_message (log_error app e) = pending_whatsapp_message app"
  "sent_messages (log_error app e) = sent_messages app"
  "gui_messages (log_error app e) = gui_messages app"
  "completion_calls (log_error app e) = completion_calls app"
  "whatsapp_conversations (log_error app e) = whatsapp_conversations app"
  "logged_errors (log_error app e) = logged_errors app @ [e]"
  by (simp_all add: log_error_def)

lemma gui_add_fields [simp]:
  "waiting_for_whatsapp_reply (gui_add_message app g) = waiting_for_whatsapp_reply app"
  "pending_whatsapp_message (gui_add_message app g) = pending_whatsapp_message app"
  "sent_messages (gui_add_message app g) = sent_messages app"
  "gui_messages (gui_add_message app g) = gui_messages app @ [g]"
  "completion_calls (gui_add_message app g) = completion_calls app"
  "whatsapp_conversations (gui_add_message app g) = whatsapp_conversations app"
  "logged_errors (gui_add_message app g) = logged_errors app"
  by (simp_all add: gui_add_message_def)

lemma speak_summary_fields [simp]:
  "waiting_for_whatsapp_reply (speak_summary env app n s) = waiting_for_whatsapp_reply app"
  "pending_whatsapp_message (speak_summary env app n s) = pending_whatsapp_message app"
  "sent_messages (speak_summary env app n s) = sent_messages app"
  "completion_calls (speak_summary env app n s) = completion_calls app"
  by (simp_all add: speak_summary_def error_processing_with_ai_def split: option.splits)

lemma decide_short:
  "length lines < 3 \<Longrightarrow>
     decide env app n lines =
       log_error app ''Invalid GPT-4o response format. Expected at least 3 lines''"
  by (simp add: decide_def)

lemma decide_not_yes:
  assumes "3 \<le> length lines" and "upper (strip (lines ! 1)) \<noteq> ''YES''"
  shows "waiting_for_whatsapp_reply (decide env app n lines)"
    and "pending_whatsapp_message (decide env app n lines) =
           Some \<lparr>contact = notif_chat_name n, sender = notif_sender_name n,
                 original_message = message_preview n\<rparr>"
    and "sent_messages (decide env app n lines) = sent_messages app"
    and "completion_calls (decide env app n lines) = completion_calls app"
  using assms by (simp_all add: decide_def Let_def)

lemma decide_completion_calls:
  "completion_calls (decide env app n lines) = completion_calls app"
  by (simp add: decide_def Let_def)

lemma process_answered:
  "chat_completion env
     [(''system'', system_prompt),
      (''user'', build_user_message time_context
          (get_conversation_history_text app (notif_chat_name n))
          (get_user_context_text app clock) n)] = Inr response \<Longrightarrow>
   process_whatsapp_with_ai env (Some system_prompt) time_context clock app n =
     decide env
       (app\<lparr>completion_calls := completion_calls app @
          [build_user_message time_context
             (get_conversation_history_text app (notif_chat_name n))
             (get_user_context_text app clock) n]\<rparr>) n (parse_lines response)"
  by (simp add: process_whatsapp_with_ai_def Let_def)

lemma short_or_held_response:
  "chat_completion env
     [(''system'', system_prompt),
      (''user'', build_user_message time_context
          (get_conversation_history_text app (notif_chat_name n))
          (get_user_context_text app clock) n)] = Inr response \<longrightarrow>
   (length (parse_lines response) < 3 \<longrightarrow>
      process_whatsapp_with_ai env (Some system_prompt) time_context clock app n =
        log_error
          (app\<lparr>completion_calls := completion_calls app @
             [build_user_message time_context
                (get_conversation_history_text app (notif_chat_name n))
                (get_user_context_text app clock) n]\<rparr>)
          ''Invalid GPT-4o response format. Expected at least 3 lines''
      \<and> sent_messages (process_whatsapp_with_ai env (Some system_prompt) time_context clock app n)
          = sent_messages app
      \<and> pending_whatsapp_message
            (process_whatsapp_with_ai env (Some system_prompt) time_context clock app n)
          = pending_whatsapp_message app
      \<and> waiting_for_whatsapp_reply
            (process_whatsapp_with_ai env (Some system_prompt) time_context clock app n)
          = waiting_for_whatsapp_reply app
      \<and> gui_messages (process_whatsapp_with_ai env (Some system_prompt) time_context clock app n)
          = gui_messages app
      \<and> length (completion_calls
            (process_whatsapp_with_ai env (Some system_prompt) time_context clock app n))
          = Suc (length (completion_calls app)))
   \<and> (3 \<le> length (parse_lines response)
        \<and> upper (strip (parse_lines response ! 1)) \<noteq> ''YES'' \<longrightarrow>
      waiting_for_whatsapp_reply
        (process_whatsapp_with_ai env (Some system_prompt) time_context clock app n)
      \<and> pending_whatsapp_message
            (process_whatsapp_with_ai env (Some system_prompt) time_context clock app n)
          = Some \<lparr>contact = notif_chat_name n, sender = notif_sender_name n,
                  original_message = message_preview n\<rparr>
      \<and> sent_messages (process_whatsapp_with_ai env (Some system_prompt) time_context clock app n)
          = sent_messages app)"
proof (intro impI conjI)
  let ?um = "build_user_message time_context
      (get_conversation_history_text app (notif_chat_name n)) (get_user_context_text app clock) n"
  let ?app1 = "app\<lparr>completion_calls := completion_calls app @ [?um]\<rparr>"
  let ?out = "process_whatsapp_with_ai env (Some system_prompt) time_context clock app n"
  assume ans: "chat_completion env [(''system'', system_prompt), (''user'', ?um)] = Inr response"
  then have out: "?out = decide env ?app1 n (parse_lines response)"
    by (rule process_answered)
  {
    assume short: "length (parse_lines response) < 3"
    then have eq: "?out = log_error ?app1 ''Invalid GPT-4o response format. Expected at least 3 lines''"
      unfolding out by (rule decide_short)
    show "?out = log_error ?app1 ''Invalid GPT-4o response format. Expected at least 3 lines''"
      by (rule eq)
    show "sent_messages ?out = sent_messages app" unfolding eq by simp
    show "pending_whatsapp_message ?out = pending_whatsapp_message app" unfolding eq by simp
    show "waiting_for_whatsapp_reply ?out = waiting_for_whatsapp_reply app" unfolding eq by simp
    show "gui_messages ?out = gui_messages app" unfolding eq by simp
    show "length (completion_calls ?out) = Suc (length (completion_calls app))"
      unfolding eq by simp
  }
  {
    assume "3 \<le> length (parse_lines response)
        \<and> upper (strip (parse_lines response ! 1)) \<noteq> ''YES''"
    then have a: "3 \<le> length (parse_lines response)"
      and b: "upper (strip (parse_lines response ! 1)) \<noteq> ''YES''" by simp_all
    show "waiting_for_whatsapp_reply ?out"
      unfolding out using a b by (rule decide_not_yes(1))
    show "pending_whatsapp_message ?out =
        Some \<lparr>contact = notif_chat_name n, sender = notif_sender_name n,
              original_message = message_preview n\<rparr>"
      unfolding out using a b by (rule decide_not_yes(2))
    show "sent_messages ?out = sent_messages app"
      unfolding out using decide_not_yes(3) [OF a b, of env ?app1 n] by simp
  }
qed

lemma parse_unparseable:
  "parse_lines unparseable_response = [''MAYBE'', ''PERHAPS'', ''Chen wants to meet at 3pm'']"
  by code_simp

lemma parse_fenced:
  "parse_lines fenced_two_line_response = [''NO'', ''no'']"
  by code_simp

lemma parse_auto:
  "parse_lines auto_reply_response =
     [''no'', ''Yes'', ''Chen'', ''Sure, 3pm works'', ''Chen asked to meet at 3pm; accepted'']"
  by code_simp

lemma parse_hold:
  "parse_lines hold_response = [''NO'', ''NO'', ''Chen wants to meet at 3pm'']"
  by code_simp

lemma upper_Yes: "upper (strip ''Yes'') = ''YES''"
  by code_simp

lemma upper_no: "upper (strip ''no'') \<noteq> ''YES''"
  by code_simp

lemma upper_NO: "upper (strip ''NO'') \<noteq> ''YES''"
  by code_simp

lemma upper_MAYBE: "upper (strip ''MAYBE'') \<noteq> ''YES''"
  by code_simp

lemma upper_PERHAPS: "upper (strip ''PERHAPS'') \<noteq> ''YES''"
  by code_simp

lemma strip_summary: "strip ''Chen wants to meet at 3pm'' = ''Chen wants to meet at 3pm''"
  by code_simp

lemma strip_reply: "strip ''Sure, 3pm works'' = ''Sure, 3pm works''"
  by code_simp

lemma strip_accepted:
  "strip ''Chen asked to meet at 3pm; accepted'' = ''Chen asked to meet at 3pm; accepted''"
  by code_simp

lemma scripted_answers: "chat_completion (scripted response delivered) messages = Inr response"
  by (simp add: scripted_def)

lemma decide_line_one:
  assumes "3 \<le> length lines" and "upper (strip (lines ! 1)) \<noteq> ''YES''"
  shows "upper (strip (lines ! 0)) \<noteq> ''YES'' \<Longrightarrow>
           spoken (decide env app n lines) = spoken app
           \<and> gui_messages (decide env app n lines) =
               gui_messages app @ [NewWhatsAppMessage (notif_sender_name n) (strip (lines ! 2))]"
    and "upper (strip (lines ! 0)) = ''YES'' \<Longrightarrow> speak env (strip (lines ! 2)) = None \<Longrightarrow>
           spoken (decide env app n lines) = spoken app @ [strip (lines ! 2)]
           \<and> gui_messages (decide env app n lines) =
               gui_messages app @ [NewWhatsAppMessage (notif_sender_name n) (strip (lines ! 2))]"
  using assms by (simp_all add: decide_def Let_def gui_add_message_def speak_summary_def)

lemma read_message_unread:
  "m \<in> set (snd (read_message svc name elem)) \<Longrightarrow> \<not> is_read m"
  by (auto simp: read_message_def Let_def split: option.splits if_splits)

lemma read_messages_unread:
  "m \<in> set (snd (read_messages svc name elems)) \<Longrightarrow> \<not> is_read m"
proof (induction elems arbitrary: svc)
  case Nil
  then show ?case by simp
next
  case (Cons e es)
  from Cons.prems have "m \<in> set (snd (read_message svc name e)) \<or>
      m \<in> set (snd (read_messages (fst (read_message svc name e)) name es))"
    by (simp add: case_prod_beta Let_def)
  then show ?case using read_message_unread Cons.IH by blast
qed

lemma check_chat_unread:
  "m \<in> set (snd (check_chat svc chat)) \<Longrightarrow> \<not> is_read m"
  by (auto simp: check_chat_def Let_def case_prod_beta read_current_chat_messages_def
        split: option.splits if_splits dest: read_messages_unread)

lemma check_chats_unread:
  "m \<in> set (snd (check_chats svc chats)) \<Longrightarrow> \<not> is_read m"
proof (induction chats arbitrary: svc)
  case Nil
  then show ?case by simp
next
  case (Cons c cs)
  from Cons.prems have "m \<in> set (snd (check_chat svc c)) \<or>
      m \<in> set (snd (check_chats (fst (check_chat svc c)) cs))"
    by (simp add: case_prod_beta Let_def)
  then show ?case using check_chat_unread Cons.IH by blast
qed

lemma check_for_new_messages_unread:
  "m \<in> set (snd (check_for_new_messages svc all_chats)) \<Longrightarrow> \<not> is_read m"
  by (cases all_chats) (auto simp: check_for_new_messages_def dest: check_chats_unread)

lemma webjs_monitor_cycle_read:
  "m \<in> set (fst (webjs_monitor_cycle env prompt_txt time_context clock now app answer)) \<Longrightarrow>
     is_read m \<and> direction m = INCOMING"
  by (auto simp: webjs_monitor_cycle_def bridge_to_message_def split: option.splits if_splits)

text \<open>
  C3 (as amended). When the Completion Service answers and the cleaned response has fewer
  than 3 non-empty lines, the engine only logs an error: it makes no send, leaves the
  Pending Reply Slot and the waiting flag as they were, shows nothing to the user, and the
  completion was called once. Lines 1 and 2 are never rejected: a line whose stripped upper
  case is not YES counts as NO. So a response of at least 3 lines whose second line is not
  YES sets the waiting flag and the Pending Reply Slot and makes no send; when its first
  line is not YES the summary is shown and nothing is spoken, when its first line is YES
  the summary is shown and spoken. The engine holds no message and changes no read flag:
  whatever the decision, a message built by the monitor of \<^verbatim>\<open>WhatsAppWebJSService\<close>,
  the service whose notifications reach the engine, is marked read from its creation, and
  a message read by the monitor of \<^verbatim>\<open>WhatsAppService\<close> is marked unread.
\<close>

theorem short_response_aborts_other_lines_read_as_no:
  "(chat_completion env
     [(''system'', system_prompt),
      (''user'', build_user_message time_context
          (get_conversation_history_text app (notif_chat_name n))
          (get_user_context_text app clock) n)] = Inr response \<longrightarrow>
   (length (parse_lines response) < 3 \<longrightarrow>
      process_whatsapp_with_ai env (Some system_prompt) time_context clock app n =
        log_error
          (app\<lparr>completion_calls := completion_calls app @
             [build_user_message time_context
                (get_conversation_history_text app (notif_chat_name n))
                (get_user_context_text app clock) n]\<rparr>)
          ''Invalid GPT-4o response format. Expected at least 3 lines''
      \<and> sent_messages (process_whatsapp_with_ai env (Some system_prompt) time_context clock app n)
          = sent_messages app
      \<and> pending_whatsapp_message
            (process_whatsapp_with_ai env (Some system_prompt) time_context clock app n)
          = pending_whatsapp_message app
      \<and> waiting_for_whatsapp_reply
            (process_whatsapp_with_ai env (Some system_prompt) time_context clock app n)
          = waiting_for_whatsapp_reply app
      \<and> gui_messages (process_whatsapp_with_ai env (Some system_prompt) time_context clock app n)
          = gui_messages app
      \<and> length (completion_calls
            (process_whatsapp_with_ai env (Some system_prompt) time_context clock app n))
          = Suc (length (completion_calls app)))
   \<and> (3 \<le> length (parse_lines response)
        \<and> upper (strip (parse_lines response ! 1)) \<noteq> ''YES'' \<longrightarrow>
      waiting_for_whatsapp_reply
        (process_whatsapp_with_ai env (Some system_prompt) time_context clock app n)
      \<and> pending_whatsapp_message
            (process_whatsapp_with_ai env (Some system_prompt) time_context clock app n)
          = Some \<lparr>contact = notif_chat_name n, sender = notif_sender_name n,
                  original_message = message_preview n\<rparr>
      \<and> sent_messages (process_whatsapp_with_ai env (Some system_prompt) time_context clock app n)
          = sent_messages app
      \<and> (upper (strip (parse_lines response ! 0)) \<noteq> ''YES'' \<longrightarrow>
           spoken (process_whatsapp_with_ai env (Some system_prompt) time_context clock app n)
             = spoken app
           \<and> gui_messages
                (process_whatsapp_with_ai env (Some system_prompt) time_context clock app n)
             = gui_messages app @
                 [NewWhatsAppMessage (notif_sender_name n) (strip (parse_lines response ! 2))])
      \<and> (upper (strip (parse_lines response ! 0)) = ''YES''
           \<and> speak env (strip (parse_lines response ! 2)) = None \<longrightarrow>
           spoken (process_whatsapp_with_ai env (Some system_prompt) time_context clock app n)
             = spoken app @ [strip (parse_lines response ! 2)]
           \<and> gui_messages
                (process_whatsapp_with_ai env (Some system_prompt) time_context clock app n)
             = gui_messages app @
                 [NewWhatsAppMessage (notif_sender_name n) (strip (parse_lines response ! 2))])))
   \<and> (\<forall>m \<in> set (fst (webjs_monitor_cycle env prompt_txt time_context clock now app answer)).
         is_read m \<and> direction m = INCOMING)
   \<and> (\<forall>m \<in> set (snd (check_for_new_messages svc all_chats)). \<not> is_read m)"
proof (intro conjI impI ballI)
  let ?um = "build_user_message time_context
      (get_conversation_history_text app (notif_chat_name n)) (get_user_context_text app clock) n"
  let ?app1 = "app\<lparr>completion_calls := completion_calls app @ [?um]\<rparr>"
  let ?out = "process_whatsapp_with_ai env (Some system_prompt) time_context clock app n"
  note old = short_or_held_response [of env system_prompt time_context app n clock response]
  {
    assume ans: "chat_completion env [(''system'', system_prompt), (''user'', ?um)] = Inr response"
    then have out: "?out = decide env ?app1 n (parse_lines response)"
      by (rule process_answered)
    {
      assume short: "length (parse_lines response) < 3"
      from old ans short
      show "?out = log_error ?app1 ''Invalid GPT-4o response format. Expected at least 3 lines''"
        by blast
      from old ans short show "sent_messages ?out = sent_messages app" by blast
      from old ans short
      show "pending_whatsapp_message ?out = pending_whatsapp_message app" by blast
      from old ans short
      show "waiting_for_whatsapp_reply ?out = waiting_for_whatsapp_reply app" by blast
      from old ans short show "gui_messages ?out = gui_messages app" by blast
      from old ans short
      show "length (completion_calls ?out) = Suc (length (completion_calls app))" by blast
    }
    {
      assume a: "3 \<le> length (parse_lines response)
          \<and> upper (strip (parse_lines response ! 1)) \<noteq> ''YES''"
      then have l: "3 \<le> length (parse_lines response)"
        and no: "upper (strip (parse_lines response ! 1)) \<noteq> ''YES''" by simp_all
      from old ans a show "waiting_for_whatsapp_reply ?out" by blast
      from old ans a show "pending_whatsapp_message ?out =
          Some \<lparr>contact = notif_chat_name n, sender = notif_sender_name n,
                original_message = message_preview n\<rparr>" by blast
      from old ans a show "sent_messages ?out = sent_messages app" by blast
      {
        assume quiet: "upper (strip (parse_lines response ! 0)) \<noteq> ''YES''"
        from decide_line_one(1) [OF l no quiet, of env ?app1 n]
        show "spoken ?out = spoken app" unfolding out by simp
        from decide_line_one(1) [OF l no quiet, of env ?app1 n]
        show "gui_messages ?out = gui_messages app @
            [NewWhatsAppMessage (notif_sender_name n) (strip (parse_lines response ! 2))]"
          unfolding out by simp
      }
      {
        assume "upper (strip (parse_lines response ! 0)) = ''YES''
            \<and> speak env (strip (parse_lines response ! 2)) = None"
        then have aloud: "upper (strip (parse_lines response ! 0)) = ''YES''"
          and ok: "speak env (strip (parse_lines response ! 2)) = None" by simp_all
        from decide_line_one(2) [OF l no aloud ok, of ?app1 n]
        show "spoken ?out = spoken app @ [strip (parse_lines response ! 2)]"
          unfolding out by simp
        from decide_line_one(2) [OF l no aloud ok, of ?app1 n]
        show "gui_messages ?out = gui_messages app @
            [NewWhatsAppMessage (notif_sender_name n) (strip (parse_lines response ! 2))]"
          unfolding out by simp
      }
    }
  }
  {
    fix m
    assume "m \<in> set (fst (webjs_monitor_cycle env prompt_txt time_context clock now app answer))"
    then have "is_read m \<and> direction m = INCOMING" by (rule webjs_monitor_cycle_read)
    then show "is_read m" and "direction m = INCOMING" by simp_all
  }
  {
    fix m
    assume "m \<in> set (snd (check_for_new_messages svc all_chats))"
    then show "\<not> is_read m" by (rule check_for_new_messages_unread)
  }
qed


lemma parse_spoken_hold:
  "parse_lines spoken_hold_response = [''yes'', ''No'', ''Chen wants to meet at 3pm'']"
  by code_simp

lemma upper_yes: "upper (strip ''yes'') = ''YES''"
  by code_simp

lemma upper_No: "upper (strip ''No'') \<noteq> ''YES''"
  by code_simp

theorem unparseable_second_line_sets_pending_counterexample:
  "parse_lines unparseable_response = [''MAYBE'', ''PERHAPS'', ''Chen wants to meet at 3pm'']
   \<and> waiting_for_whatsapp_reply
        (process_whatsapp_with_ai (scripted unparseable_response True) (Some ''You are Jarvis.'')
           ''Current time: 02:00 PM'' (\<lambda>i. 0) initial_app chen_notification)
   \<and> pending_whatsapp_message
        (process_whatsapp_with_ai (scripted unparseable_response True) (Some ''You are Jarvis.'')
           ''Current time: 02:00 PM'' (\<lambda>i. 0) initial_app chen_notification)
      = Some \<lparr>contact = ''Chen'', sender = ''Chen'', original_message = ''Can we meet at 3pm?''\<rparr>
   \<and> gui_messages
        (process_whatsapp_with_ai (scripted unparseable_response True) (Some ''You are Jarvis.'')
           ''Current time: 02:00 PM'' (\<lambda>i. 0) initial_app chen_notification)
      = [NewWhatsAppMessage ''Chen'' ''Chen wants to meet at 3pm'']
   \<and> parse_lines fenced_two_line_response = [''NO'', ''no'']
   \<and> fst (webjs_monitor_cycle (scripted fenced_two_line_response True) (Some ''You are Jarvis.'')
             ''Current time: 02:00 PM'' (\<lambda>i. 0) 1000 initial_app
             (Some (200, [chen_bridge_message])))
      = [\<lparr>msg_id = ''false_123@c.us_3EB0'', chat_name = ''Chen'', sender_name = ''Chen'',
          content = ''Can we meet at 3pm?'', timestamp = 1000, direction = INCOMING,
          message_type = TEXT, media_path = None, is_read = True, is_from_me = False,
          from_id = Some ''123@c.us''\<rparr>]
   \<and> logged_errors
        (snd (webjs_monitor_cycle (scripted fenced_two_line_response True) (Some ''You are Jarvis.'')
                ''Current time: 02:00 PM'' (\<lambda>i. 0) 1000 initial_app
                (Some (200, [chen_bridge_message]))))
      = [''Invalid GPT-4o response format. Expected at least 3 lines'']"
proof -
  have held: "waiting_for_whatsapp_reply
        (process_whatsapp_with_ai (scripted unparseable_response True) (Some ''You are Jarvis.'')
           ''Current time: 02:00 PM'' (\<lambda>i. 0) initial_app chen_notification)
   \<and> pending_whatsapp_message
        (process_whatsapp_with_ai (scripted unparseable_response True) (Some ''You are Jarvis.'')
           ''Current time: 02:00 PM'' (\<lambda>i. 0) initial_app chen_notification)
      = Some \<lparr>contact = ''Chen'', sender = ''Chen'', original_message = ''Can we meet at 3pm?''\<rparr>
   \<and> gui_messages
        (process_whatsapp_with_ai (scripted unparseable_response True) (Some ''You are Jarvis.'')
           ''Current time: 02:00 PM'' (\<lambda>i. 0) initial_app chen_notification)
      = [NewWhatsAppMessage ''Chen'' ''Chen wants to meet at 3pm'']"
    by (simp add: parse_unparseable process_whatsapp_with_ai_def scripted_def Let_def decide_def
        upper_MAYBE upper_PERHAPS strip_summary chen_notification_def initial_app_def
        gui_add_message_def)
  have built: "fst (webjs_monitor_cycle (scripted fenced_two_line_response True)
             (Some ''You are Jarvis.'') ''Current time: 02:00 PM'' (\<lambda>i. 0) 1000 initial_app
             (Some (200, [chen_bridge_message])))
      = [\<lparr>msg_id = ''false_123@c.us_3EB0'', chat_name = ''Chen'', sender_name = ''Chen'',
          content = ''Can we meet at 3pm?'', timestamp = 1000, direction = INCOMING,
          message_type = TEXT, media_path = None, is_read = True, is_from_me = False,
          from_id = Some ''123@c.us''\<rparr>]"
    by (simp add: webjs_monitor_cycle_def bridge_to_message_def chen_bridge_message_def)
  have logged: "logged_errors
        (snd (webjs_monitor_cycle (scripted fenced_two_line_response True) (Some ''You are Jarvis.'')
                ''Current time: 02:00 PM'' (\<lambda>i. 0) 1000 initial_app
                (Some (200, [chen_bridge_message]))))
      = [''Invalid GPT-4o response format. Expected at least 3 lines'']"
    by (simp add: webjs_monitor_cycle_def on_whatsapp_notification_def
          process_answered [OF scripted_answers] parse_fenced decide_short initial_app_def)
  show ?thesis
    using parse_unparseable held parse_fenced built logged by (intro conjI) simp_all
qed


theorem short_response_aborts_other_lines_read_as_no_witness:
  "length (parse_lines fenced_two_line_response) < 3
   \<and> process_whatsapp_with_ai (scripted fenced_two_line_response True) (Some ''You are Jarvis.'')
        ''Current time: 02:00 PM'' (\<lambda>i. 0) initial_app chen_notification =
      log_error
        (initial_app\<lparr>completion_calls := completion_calls initial_app @
           [build_user_message ''Current time: 02:00 PM''
              (get_conversation_history_text initial_app (notif_chat_name chen_notification))
              (get_user_context_text initial_app (\<lambda>i. 0)) chen_notification]\<rparr>)
        ''Invalid GPT-4o response format. Expected at least 3 lines''
   \<and> 3 \<le> length (parse_lines hold_response)
   \<and> upper (strip (parse_lines hold_response ! 1)) \<noteq> ''YES''
   \<and> upper (strip (parse_lines hold_response ! 0)) \<noteq> ''YES''
   \<and> pending_whatsapp_message
        (process_whatsapp_with_ai (scripted hold_response True) (Some ''You are Jarvis.'')
           ''Current time: 02:00 PM'' (\<lambda>i. 0) initial_app chen_notification)
      = Some \<lparr>contact = notif_chat_name chen_notification,
              sender = notif_sender_name chen_notification,
              original_message = message_preview chen_notification\<rparr>
   \<and> spoken
        (process_whatsapp_with_ai (scripted hold_response True) (Some ''You are Jarvis.'')
           ''Current time: 02:00 PM'' (\<lambda>i. 0) initial_app chen_notification)
      = spoken initial_app
   \<and> 3 \<le> length (parse_lines spoken_hold_response)
   \<and> upper (strip (parse_lines spoken_hold_response ! 1)) \<noteq> ''YES''
   \<and> upper (strip (parse_lines spoken_hold_response ! 0)) = ''YES''
   \<and> speak (scripted spoken_hold_response True) (strip (parse_lines spoken_hold_response ! 2)) = None
   \<and> spoken
        (process_whatsapp_with_ai (scripted spoken_hold_response True) (Some ''You are Jarvis.'')
           ''Current time: 02:00 PM'' (\<lambda>i. 0) initial_app chen_notification)
      = spoken initial_app @ [strip (parse_lines spoken_hold_response ! 2)]
   \<and> fst (webjs_monitor_cycle (scripted fenced_two_line_response True) (Some ''You are Jarvis.'')
             ''Current time: 02:00 PM'' (\<lambda>i. 0) 1000 initial_app
             (Some (200, [chen_bridge_message]))) \<noteq> []
   \<and> list_all (\<lambda>m. is_read m \<and> direction m = INCOMING)
        (fst (webjs_monitor_cycle (scripted fenced_two_line_response True) (Some ''You are Jarvis.'')
                ''Current time: 02:00 PM'' (\<lambda>i. 0) 1000 initial_app
                (Some (200, [chen_bridge_message]))))
   \<and> snd (check_for_new_messages
             (empty_service\<lparr>last_message_previews := [''Chen'' \<mapsto> ''Hey there'']\<rparr>)
             (Some [unread_chat ''Chen'' ''Can we meet at 3pm?''
                      [incoming_elem ''Chen'' ''Can we meet at 3pm?'']])) \<noteq> []
   \<and> list_all (\<lambda>m. \<not> is_read m)
        (snd (check_for_new_messages
                (empty_service\<lparr>last_message_previews := [''Chen'' \<mapsto> ''Hey there'']\<rparr>)
                (Some [unread_chat ''Chen'' ''Can we meet at 3pm?''
                         [incoming_elem ''Chen'' ''Can we meet at 3pm?'']])))"
proof -
  let ?svc = "empty_service\<lparr>last_message_previews := [''Chen'' \<mapsto> ''Hey there'']\<rparr>"
  let ?chats = "Some [unread_chat ''Chen'' ''Can we meet at 3pm?''
                        [incoming_elem ''Chen'' ''Can we meet at 3pm?'']]"
  have short: "length (parse_lines fenced_two_line_response) < 3"
    by (simp add: parse_fenced)
  have long: "3 \<le> length (parse_lines hold_response)"
    and no: "upper (strip (parse_lines hold_response ! 1)) \<noteq> ''YES''"
    and quiet: "upper (strip (parse_lines hold_response ! 0)) \<noteq> ''YES''"
    by (simp_all add: parse_hold upper_NO)
  have long': "3 \<le> length (parse_lines spoken_hold_response)"
    and no': "upper (strip (parse_lines spoken_hold_response ! 1)) \<noteq> ''YES''"
    and aloud: "upper (strip (parse_lines spoken_hold_response ! 0)) = ''YES''"
    by (simp_all add: parse_spoken_hold upper_No upper_yes)
  have ok: "speak (scripted spoken_hold_response True) (strip (parse_lines spoken_hold_response ! 2))
      = None"
    by (simp add: scripted_def)
  have built: "fst (webjs_monitor_cycle (scripted fenced_two_line_response True)
             (Some ''You are Jarvis.'') ''Current time: 02:00 PM'' (\<lambda>i. 0) 1000 initial_app
             (Some (200, [chen_bridge_message]))) \<noteq> []"
    by (simp add: webjs_monitor_cycle_def)
  have read: "snd (check_for_new_messages ?svc ?chats) \<noteq> []"
    by (simp add: check_for_new_messages_def check_chat_def unread_chat_def empty_service_def
          store_preview_def read_current_chat_messages_def py_last_n_def read_message_def
          incoming_elem_def strip_Chen Let_def)
  note fenced = short_response_aborts_other_lines_read_as_no
      [where env = "scripted fenced_two_line_response True" and system_prompt = "''You are Jarvis.''"
         and time_context = "''Current time: 02:00 PM''" and app = initial_app
         and n = chen_notification and clock = "\<lambda>i. 0" and response = fenced_two_line_response
         and prompt_txt = "Some ''You are Jarvis.''" and now = 1000
         and answer = "Some (200, [chen_bridge_message])" and svc = ?svc and all_chats = ?chats]
  note held = short_response_aborts_other_lines_read_as_no
      [where env = "scripted hold_response True" and system_prompt = "''You are Jarvis.''"
         and time_context = "''Current time: 02:00 PM''" and app = initial_app
         and n = chen_notification and clock = "\<lambda>i. 0" and response = hold_response]
  note said = short_response_aborts_other_lines_read_as_no
      [where env = "scripted spoken_hold_response True" and system_prompt = "''You are Jarvis.''"
         and time_context = "''Current time: 02:00 PM''" and app = initial_app
         and n = chen_notification and clock = "\<lambda>i. 0" and response = spoken_hold_response]
  have a: "process_whatsapp_with_ai (scripted fenced_two_line_response True) (Some ''You are Jarvis.'')
        ''Current time: 02:00 PM'' (\<lambda>i. 0) initial_app chen_notification =
      log_error
        (initial_app\<lparr>completion_calls := completion_calls initial_app @
           [build_user_message ''Current time: 02:00 PM''
              (get_conversation_history_text initial_app (notif_chat_name chen_notification))
              (get_user_context_text initial_app (\<lambda>i. 0)) chen_notification]\<rparr>)
        ''Invalid GPT-4o response format. Expected at least 3 lines''"
    using fenced short scripted_answers by blast
  have b: "pending_whatsapp_message
        (process_whatsapp_with_ai (scripted hold_response True) (Some ''You are Jarvis.'')
           ''Current time: 02:00 PM'' (\<lambda>i. 0) initial_app chen_notification)
      = Some \<lparr>contact = notif_chat_name chen_notification,
              sender = notif_sender_name chen_notification,
              original_message = message_preview chen_notification\<rparr>"
    using held long no scripted_answers by blast
  have c: "spoken
        (process_whatsapp_with_ai (scripted hold_response True) (Some ''You are Jarvis.'')
           ''Current time: 02:00 PM'' (\<lambda>i. 0) initial_app chen_notification)
      = spoken initial_app"
    using held long no quiet scripted_answers by blast
  have d: "spoken
        (process_whatsapp_with_ai (scripted spoken_hold_response True) (Some ''You are Jarvis.'')
           ''Current time: 02:00 PM'' (\<lambda>i. 0) initial_app chen_notification)
      = spoken initial_app @ [strip (parse_lines spoken_hold_response ! 2)]"
    using said long' no' aloud ok scripted_answers by blast
  have e: "list_all (\<lambda>m. is_read m \<and> direction m = INCOMING)
        (fst (webjs_monitor_cycle (scripted fenced_two_line_response True) (Some ''You are Jarvis.'')
                ''Current time: 02:00 PM'' (\<lambda>i. 0) 1000 initial_app
                (Some (200, [chen_bridge_message]))))"
    unfolding list_all_iff using fenced by blast
  have f: "list_all (\<lambda>m. \<not> is_read m) (snd (check_for_new_messages ?svc ?chats))"
    unfolding list_all_iff using fenced by blast
  show ?thesis
    using short a long no quiet b c long' no' aloud ok d built e read f by (intro conjI)
qed

section \<open>Send failures and their notices\<close>

text \<open>
  C5. The auto-reply path at a failing send: the decision asks to send, the dispatcher
  returns false, and the engine only logs "Failed to send auto-reply"; nothing is shown in
  the conversation view and nothing is spoken. The two lemmas after it show that the direct
  send command and the rewritten pending reply do show a failure notice.
\<close>

theorem auto_reply_send_failure_is_only_logged:
  "parse_lines auto_reply_response =
     [''no'', ''Yes'', ''Chen'', ''Sure, 3pm works'', ''Chen asked to meet at 3pm; accepted'']
   \<and> sent_messages
        (process_whatsapp_with_ai (scripted auto_reply_response False) (Some ''You are Jarvis.'')
           ''Current time: 02:00 PM'' (\<lambda>i. 0) initial_app chen_notification)
      = [(''Chen'', ''Sure, 3pm works'')]
   \<and> gui_messages
        (process_whatsapp_with_ai (scripted auto_reply_response False) (Some ''You are Jarvis.'')
           ''Current time: 02:00 PM'' (\<lambda>i. 0) initial_app chen_notification)
      = []
   \<and> spoken
        (process_whatsapp_with_ai (scripted auto_reply_response False) (Some ''You are Jarvis.'')
           ''Current time: 02:00 PM'' (\<lambda>i. 0) initial_app chen_notification)
      = []
   \<and> logged_errors
        (process_whatsapp_with_ai (scripted auto_reply_response False) (Some ''You are Jarvis.'')
           ''Current time: 02:00 PM'' (\<lambda>i. 0) initial_app chen_notification)
      = [''Failed to send auto-reply'']"
  by (simp add: parse_auto process_whatsapp_with_ai_def scripted_def Let_def decide_def
        upper_no upper_Yes strip_Chen strip_reply strip_accepted initial_app_def log_error_def)

lemma direct_send_failure_is_shown:
  "\<not> send c m \<Longrightarrow>
     gui_messages (send_whatsapp_message send app c m) = gui_messages app @ [FailedToSendWhatsApp c]"
  by (simp add: send_whatsapp_message_def Let_def)

lemma rewrite_send_failure_is_shown:
  "pending_whatsapp_message app = Some p \<Longrightarrow>
   chat_completion env
     [(''user'', rewrite_prompt (get_conversation_history_text app (contact p))
                   (sender p) (original_message p) said)] = Inr raw \<Longrightarrow>
   \<not> send_message env (contact p) (strip_char (CHR 0x27) (strip_char (CHR 0x22) (strip raw))) \<Longrightarrow>
   gui_messages (rewrite_and_send_whatsapp_reply env app said) =
     gui_messages app @ [FailedToSendTo (sender p)]"
  by (simp add: rewrite_and_send_whatsapp_reply_def rewrite_and_send_with_def Let_def clear_waiting_def)

section \<open>Notifications carry a 100-character prefix\<close>

lemma error_processing_fields [simp]:
  "waiting_for_whatsapp_reply (error_processing_with_ai app n e) = waiting_for_whatsapp_reply app"
  "pending_whatsapp_message (error_processing_with_ai app n e) = pending_whatsapp_message app"
  "sent_messages (error_processing_with_ai app n e) = sent_messages app"
  "completion_calls (error_processing_with_ai app n e) = completion_calls app"
  by (simp_all add: error_processing_with_ai_def)

lemma process_completion_calls:
  "completion_calls (process_whatsapp_with_ai env (Some system_prompt) time_context clock app n) =
     completion_calls app @
       [build_user_message time_context (get_conversation_history_text app (notif_chat_name n))
          (get_user_context_text app clock) n]"
  by (simp add: process_whatsapp_with_ai_def Let_def decide_completion_calls split: sum.splits)

text \<open>
  C10. For a message whose content is longer than 100 characters the notification built by
  \<^verbatim>\<open>_trigger_notification\<close> carries exactly the first 100 characters, which differ from
  the full content; the decision prompt has these 100 characters after "Message: ", that
  prompt is the one recorded completion call, and on a decision that holds the reply the
  Pending Reply Slot stores the same 100 characters as the original message.
\<close>

theorem notification_carries_first_100_characters:
  "100 < length (content message) \<longrightarrow>
     message_preview (trigger_notification message) = take 100 (content message)
     \<and> length (message_preview (trigger_notification message)) = 100
     \<and> message_preview (trigger_notification message) \<noteq> content message
     \<and> build_user_message time_context history said (trigger_notification message) =
         time_context @ [newline, newline] @ history @ [newline, newline] @
         said @ [newline, newline] @ ''--- NEW MESSAGE ---'' @ [newline] @
         ''From: '' @ sender_name message @ [newline] @
         ''Chat: '' @ chat_name message @ [newline] @
         ''Message: '' @ take 100 (content message) @ [newline, newline] @ decision_instructions
     \<and> completion_calls
          (process_whatsapp_with_ai env (Some system_prompt) time_context clock app
             (trigger_notification message)) =
         completion_calls app @
           [build_user_message time_context
              (get_conversation_history_text app (chat_name message))
              (get_user_context_text app clock) (trigger_notification message)]
     \<and> (chat_completion env
           [(''system'', system_prompt),
            (''user'', build_user_message time_context
                (get_conversation_history_text app (chat_name message))
                (get_user_context_text app clock) (trigger_notification message))] = Inr response
         \<and> 3 \<le> length (parse_lines response)
         \<and> upper (strip (parse_lines response ! 1)) \<noteq> ''YES'' \<longrightarrow>
         pending_whatsapp_message
           (process_whatsapp_with_ai env (Some system_prompt) time_context clock app
              (trigger_notification message)) =
           Some \<lparr>contact = chat_name message, sender = sender_name message,
                 original_message = take 100 (content message)\<rparr>)"
proof (intro impI conjI)
  assume long: "100 < length (content message)"
  show "message_preview (trigger_notification message) = take 100 (content message)"
    by (simp add: trigger_notification_def)
  show "length (message_preview (trigger_notification message)) = 100"
    using long by (simp add: trigger_notification_def)
  show "message_preview (trigger_notification message) \<noteq> content message"
  proof
    assume "message_preview (trigger_notification message) = content message"
    then have "length (take 100 (content message)) = length (content message)"
      by (simp add: trigger_notification_def)
    with long show False by simp
  qed
  show "build_user_message time_context history said (trigger_notification message) =
         time_context @ [newline, newline] @ history @ [newline, newline] @
         said @ [newline, newline] @ ''--- NEW MESSAGE ---'' @ [newline] @
         ''From: '' @ sender_name message @ [newline] @
         ''Chat: '' @ chat_name message @ [newline] @
         ''Message: '' @ take 100 (content message) @ [newline, newline] @ decision_instructions"
    by (simp add: build_user_message_def trigger_notification_def)
  have names: "notif_chat_name (trigger_notification message) = chat_name message"
    "notif_sender_name (trigger_notification message) = sender_name message"
    by (simp_all add: trigger_notification_def)
  show "completion_calls
          (process_whatsapp_with_ai env (Some system_prompt) time_context clock app
             (trigger_notification message)) =
         completion_calls app @
           [build_user_message time_context
              (get_conversation_history_text app (chat_name message))
              (get_user_context_text app clock) (trigger_notification message)]"
    using process_completion_calls [of env system_prompt time_context clock app
        "trigger_notification message"] names by simp
  assume a: "chat_completion env
           [(''system'', system_prompt),
            (''user'', build_user_message time_context
                (get_conversation_history_text app (chat_name message))
                (get_user_context_text app clock) (trigger_notification message))] = Inr response
         \<and> 3 \<le> length (parse_lines response)
         \<and> upper (strip (parse_lines response ! 1)) \<noteq> ''YES''"
  then have ans: "chat_completion env
           [(''system'', system_prompt),
            (''user'', build_user_message time_context
                (get_conversation_history_text app
                   (notif_chat_name (trigger_notification message)))
                (get_user_context_text app clock) (trigger_notification message))] = Inr response"
    using names by simp
  from a have l: "3 \<le> length (parse_lines response)"
    and no: "upper (strip (parse_lines response ! 1)) \<noteq> ''YES''" by simp_all
  show "pending_whatsapp_message
           (process_whatsapp_with_ai env (Some system_prompt) time_context clock app
              (trigger_notification message)) =
           Some \<lparr>contact = chat_name message, sender = sender_name message,
                 original_message = take 100 (content message)\<rparr>"
    unfolding process_answered [OF ans]
    using decide_not_yes(2) [OF l no] by (simp add: trigger_notification_def)
qed

theorem notification_carries_first_100_characters_witness:
  "100 < length (content long_message)
   \<and> message_preview (trigger_notification long_message) = replicate 100 (CHR ''a'')
   \<and> message_preview (trigger_notification long_message) \<noteq> content long_message
   \<and> pending_whatsapp_message
        (process_whatsapp_with_ai (scripted hold_response True) (Some ''You are Jarvis.'')
           ''Current time: 02:00 PM'' (\<lambda>i. 0) initial_app (trigger_notification long_message))
      = Some \<lparr>contact = ''Chen'', sender = ''Chen'', original_message = replicate 100 (CHR ''a'')\<rparr>"
proof -
  have long: "100 < length (content long_message)"
    by (simp add: long_message_def)
  have l: "3 \<le> length (parse_lines hold_response)"
    and no: "upper (strip (parse_lines hold_response ! 1)) \<noteq> ''YES''"
    by (simp_all add: parse_hold upper_NO)
  have cut: "take 100 (content long_message) = replicate 100 (CHR ''a'')"
    by (simp add: long_message_def)
  have who: "chat_name long_message = ''Chen''" "sender_name long_message = ''Chen''"
    by (simp_all add: long_message_def)
  note inst = notification_carries_first_100_characters
        [where message = long_message and env = "scripted hold_response True"
           and system_prompt = "''You are Jarvis.''" and time_context = "''Current time: 02:00 PM''"
           and clock = "\<lambda>i. 0" and app = initial_app and response = hold_response
           and history = "[]" and said = "[]", THEN mp, OF long]
  have ans: "chat_completion (scripted hold_response True)
           [(''system'', ''You are Jarvis.''),
            (''user'', build_user_message ''Current time: 02:00 PM''
                (get_conversation_history_text initial_app (chat_name long_message))
                (get_user_context_text initial_app (\<lambda>i. 0))
                (trigger_notification long_message))] = Inr hold_response"
    by (rule scripted_answers)
  from inst have p: "message_preview (trigger_notification long_message) =
      take 100 (content long_message)" by blast
  from inst have ne: "message_preview (trigger_notification long_message) \<noteq> content long_message"
    by blast
  from inst ans l no have pend: "pending_whatsapp_message
        (process_whatsapp_with_ai (scripted hold_response True) (Some ''You are Jarvis.'')
           ''Current time: 02:00 PM'' (\<lambda>i. 0) initial_app (trigger_notification long_message))
      = Some \<lparr>contact = chat_name long_message, sender = sender_name long_message,
              original_message = take 100 (content long_message)\<rparr>"
    by blast
  show ?thesis
    using long p ne pend unfolding cut who by (intro conjI)
qed

section \<open>Pending reply slot: consumed once\<close>
























section \<open>Surfacing of self-authored messages and persistence of sent messages\<close>

lemma check_chats_messages:
  "m \<in> set (snd (check_chats svc chats)) \<Longrightarrow> \<not> is_from_me m \<and> direction m = INCOMING"
proof (induction chats arbitrary: svc)
  case Nil
  then show ?case by simp
next
  case (Cons c cs)
  from Cons.prems have "m \<in> set (snd (check_chat svc c)) \<or>
      m \<in> set (snd (check_chats (fst (check_chat svc c)) cs))"
    by (simp add: case_prod_beta Let_def)
  then show ?case using check_chat_messages Cons.IH by blast
qed

lemma surface_messages_notifications:
  "n \<in> set (snd (surface_messages save_raises svc ms)) \<Longrightarrow>
     \<exists>m \<in> set ms. n = trigger_notification m"
proof (induction ms arbitrary: svc)
  case Nil
  then show ?case by simp
next
  case (Cons m ms)
  then show ?case
    by (cases "save_raises m") (auto simp: case_prod_beta Let_def)
qed

lemma selenium_surfaces_only_incoming:
  "n \<in> set (snd (monitor_cycle save_raises svc all_chats)) \<Longrightarrow>
     \<exists>m. n = trigger_notification m \<and> \<not> is_from_me m \<and> direction m = INCOMING"
proof -
  assume "n \<in> set (snd (monitor_cycle save_raises svc all_chats))"
  then obtain m where m: "m \<in> set (snd (check_for_new_messages svc all_chats))"
    and n: "n = trigger_notification m"
    using surface_messages_notifications
    by (fastforce simp: monitor_cycle_def case_prod_beta)
  from m have "\<not> is_from_me m \<and> direction m = INCOMING"
    by (cases all_chats) (auto simp: check_for_new_messages_def dest: check_chats_messages)
  with n show ?thesis by blast
qed

text \<open>
  C6. \<^verbatim>\<open>WhatsAppWebJSService._monitor_messages\<close> at a bridge message with
  \<^verbatim>\<open>isFromMe\<close> true: the message is turned into a notification, the callback runs
  and the decision engine calls the Completion Service for it. The lemma
  \<open>selenium_surfaces_only_incoming\<close> before it shows that the monitor of
  \<^verbatim>\<open>WhatsAppService\<close> notifies only for incoming messages that are not self-authored.
\<close>

theorem webjs_surfaces_self_authored_message:
  "is_from_me (bridge_to_message 1000 own_bridge_message)
   \<and> webjs_poll 1000 (Some (200, [own_bridge_message])) =
       [\<lparr>notif_chat_name = ''Chen'', notif_sender_name = ''Me'', message_preview = ''On my way'',
         notif_timestamp = 1000, unread_count = 1\<rparr>]
   \<and> length (completion_calls
        (notify_all (scripted hold_response True) (Some ''You are Jarvis.'')
           ''Current time: 02:00 PM'' (\<lambda>i. 0) initial_app
           (webjs_poll 1000 (Some (200, [own_bridge_message]))))) = 1
   \<and> waiting_for_whatsapp_reply
        (notify_all (scripted hold_response True) (Some ''You are Jarvis.'')
           ''Current time: 02:00 PM'' (\<lambda>i. 0) initial_app
           (webjs_poll 1000 (Some (200, [own_bridge_message]))))"
proof -
  have poll: "webjs_poll 1000 (Some (200, [own_bridge_message])) =
       [\<lparr>notif_chat_name = ''Chen'', notif_sender_name = ''Me'', message_preview = ''On my way'',
         notif_timestamp = 1000, unread_count = 1\<rparr>]"
    by (simp add: webjs_poll_def bridge_to_message_def own_bridge_message_def
          trigger_notification_def)
  have own: "is_from_me (bridge_to_message 1000 own_bridge_message)"
    by (simp add: bridge_to_message_def own_bridge_message_def)
  have l: "3 \<le> length (parse_lines hold_response)"
    and no: "upper (strip (parse_lines hold_response ! 1)) \<noteq> ''YES''"
    by (simp_all add: parse_hold upper_NO)
  have init: "completion_calls initial_app = []"
    by (simp add: initial_app_def)
  show ?thesis
    unfolding poll using own l no init
    by (simp add: on_whatsapp_notification_def process_completion_calls
          process_answered [OF scripted_answers] decide_not_yes)
qed

text \<open>
  C4. \<^verbatim>\<open>WhatsAppWebJSService.send_message\<close> at a bridge that finds the contact and
  answers the send with status 200: the result is true, and the function writes to no
  message table (the service has none). The lemma \<open>selenium_send_persists\<close> after it
  shows that \<^verbatim>\<open>WhatsAppService.send_message\<close> returns true only with the outgoing
  message saved.
\<close>

theorem webjs_send_true_without_store:
  "webjs_send_message answering_bridge ''Chen'' ''On my way'' = True"
  by (simp add: webjs_send_message_def answering_bridge_def)

lemma send_attempts_persists:
  "send_attempts svc c m attempts = (svc', True) \<Longrightarrow>
     \<exists>uuid now. db svc' uuid = Some (sent_message_record uuid c m now)"
proof (induction attempts arbitrary: svc)
  case Nil
  then show ?case by simp
next
  case (Cons a attempts)
  obtain outcome uuid now where a: "a = (outcome, uuid, now)" by (cases a) auto
  show ?case
  proof (cases outcome)
    case AttemptRaises
    with Cons a show ?thesis by simp
  next
    case ContactNotFound
    with Cons.prems a show ?thesis by simp
  next
    case SentSaveRaises
    with Cons a show ?thesis by simp
  next
    case SentAndSaved
    with Cons.prems a have "svc' = svc\<lparr>db := (db svc)(uuid \<mapsto> sent_message_record uuid c m now),
               events := events svc @
                 [MessageDelivered c m, MessageSaved (sent_message_record uuid c m now)]\<rparr>"
      by simp
    then have "db svc' uuid = Some (sent_message_record uuid c m now)" by simp
    then show ?thesis by blast
  qed
qed

lemma selenium_send_persists:
  "service_send_message browser svc c m retries = (svc', True) \<Longrightarrow>
     \<exists>uuid stored. db svc' uuid = Some stored \<and> direction stored = OUTGOING
        \<and> is_from_me stored \<and> content stored = m \<and> chat_name stored = c"
proof -
  assume "service_send_message browser svc c m retries = (svc', True)"
  then obtain uuid now where "db svc' uuid = Some (sent_message_record uuid c m now)"
    unfolding service_send_message_def using send_attempts_persists by blast
  then show ?thesis
    by (intro exI [of _ uuid] exI [of _ "sent_message_record uuid c m now"])
      (simp add: sent_message_record_def)
qed

end
